theory Spec2Isabelle
  imports Main
begin

text \<open>
  A model of \<^verbatim>\<open>policy_agent.py\<close>: the handler registry, the dispatcher, the reflector
  of each resource type and the start-up of the agent. Functions carry the names of the
  source, methods without their leading underscore.
\<close>

section \<open>Values of the Python program\<close>

text \<open>
  A parsed JSON document, as \<^verbatim>\<open>json.loads\<close> and \<^verbatim>\<open>Response.json()\<close> return it.
  Python's \<^verbatim>\<open>None\<close> is \<open>JNull\<close>. A dict is an association list read with
  \<open>map_of\<close>.
\<close>

datatype json =
    JNull
  | JBool bool
  | JNum int
  | JStr string
  | JArr "json list"
  | JObj "(string \<times> json) list"

text \<open>
  The exceptions of the program. \<open>Queue_Full\<close> is \<^verbatim>\<open>Queue.Full\<close>;
  \<open>OtherException\<close> stands for any exception class that no \<^verbatim>\<open>except\<close>
  clause of the program names (for instance \<^verbatim>\<open>requests.Timeout\<close>).
\<close>

datatype exn =
    ConnectionError
  | HTTPError
  | KubernetesApiError
  | Queue_Full
  | KeyError
  | ValueError
  | TypeError
  | AttributeError
  | OtherException string

text \<open>\<^verbatim>\<open>d[k]\<close> for a string key: only a dict can be subscripted by a string.\<close>

definition getitem :: "json \<Rightarrow> string \<Rightarrow> exn + json" where
  "getitem d k =
     (case d of
        JObj kvs \<Rightarrow> (case map_of kvs k of None \<Rightarrow> Inl KeyError | Some v \<Rightarrow> Inr v)
      | _ \<Rightarrow> Inl TypeError)"

text \<open>\<^verbatim>\<open>d.get(k, default)\<close>: only a dict has the method.\<close>

definition get_method :: "json \<Rightarrow> string \<Rightarrow> json \<Rightarrow> exn + json" where
  "get_method d k dflt =
     (case d of
        JObj kvs \<Rightarrow> (case map_of kvs k of None \<Rightarrow> Inr dflt | Some v \<Rightarrow> Inr v)
      | _ \<Rightarrow> Inl AttributeError)"

text \<open>Truth value of a Python object in \<^verbatim>\<open>if x:\<close>.\<close>

fun truthy :: "json \<Rightarrow> bool" where
  "truthy JNull = False"
| "truthy (JBool b) = b"
| "truthy (JNum n) = (n \<noteq> 0)"
| "truthy (JStr s) = (s \<noteq> [])"
| "truthy (JArr xs) = (xs \<noteq> [])"
| "truthy (JObj kvs) = (kvs \<noteq> [])"

text \<open>Lists and dicts cannot be members of a dict key.\<close>

fun hashable :: "json \<Rightarrow> bool" where
  "hashable (JArr xs) = False"
| "hashable (JObj kvs) = False"
| "hashable v = True"

text \<open>
  \<^verbatim>\<open>for x in v\<close>: a list yields its elements, a string its characters, a dict its keys
  (in the order of the association list; Python's hash order is not modelled); anything
  else is not iterable.
\<close>

fun py_iter :: "json \<Rightarrow> exn + json list" where
  "py_iter (JArr xs) = Inr xs"
| "py_iter (JStr s) = Inr (map (\<lambda>c. JStr [c]) s)"
| "py_iter (JObj kvs) = Inr (map JStr (remdups (map fst kvs)))"
| "py_iter v = Inl TypeError"

section \<open>Constants\<close>

text \<open>
  Modelled from the spec: the module \<^verbatim>\<open>constants\<close> is not part of the sources. The four
  event kinds are the strings of the watch envelope's \<^verbatim>\<open>type\<close> field.
\<close>

definition TYPE_ADDED :: string where "TYPE_ADDED = ''ADDED''"
definition TYPE_MODIFIED :: string where "TYPE_MODIFIED = ''MODIFIED''"
definition TYPE_DELETED :: string where "TYPE_DELETED = ''DELETED''"
definition TYPE_ERROR :: string where "TYPE_ERROR = ''ERROR''"

text \<open>
  The remaining names of \<^verbatim>\<open>constants\<close> and the two library functions the program
  calls on text are parameters: \<open>json_loads\<close> is \<^verbatim>\<open>json.loads\<close> (\<open>None\<close> when it
  raises \<^verbatim>\<open>ValueError\<close>), \<open>py_str\<close> is the text \<^verbatim>\<open>%s\<close> gives for a value that is not
  a string. A URL template is the function of the text put in place of its \<^verbatim>\<open>%s\<close>.
\<close>

record env =
  MAX_QUEUE_SIZE :: int
  CA_CERT_PATH :: string
  NET_POL_TIER_NAME :: string
  GET_URLS :: "string \<rightharpoonup> (string \<Rightarrow> string)"
  WATCH_URLS :: "string \<rightharpoonup> (string \<Rightarrow> string)"
  RESOURCE_TYPE_NETWORK_POLICY :: string
  RESOURCE_TYPE_NAMESPACE :: string
  RESOURCE_TYPE_POD :: string
  json_loads :: "string \<Rightarrow> json option"
  py_str :: "json \<Rightarrow> string"

section \<open>Handler registry\<close>

text \<open>
  A handler receives the key \<^verbatim>\<open>(namespace, name)\<close>, the resource and the cache. It may
  change the cache and may raise. Its writes to the datastore are outside the model.
\<close>

type_synonym 'l cache = "string \<rightharpoonup> 'l"
type_synonym 'l handler = "json \<times> json \<Rightarrow> json \<Rightarrow> 'l cache \<Rightarrow> exn option \<times> 'l cache"
type_synonym 'l handlers = "string \<times> string \<rightharpoonup> 'l handler"

definition add_handler :: "'l handlers \<Rightarrow> string \<Rightarrow> string \<Rightarrow> 'l handler \<Rightarrow> 'l handlers" where
  "add_handler hs resource_type event_type handler = hs((resource_type, event_type) \<mapsto> handler)"

text \<open>
  \<^verbatim>\<open>self._handlers[key]\<close>: the registry's keys are pairs of strings, so a pair with a
  component that is not a string is absent; a pair with an unhashable component raises
  \<^verbatim>\<open>TypeError\<close>.
\<close>

definition get_handler :: "'l handlers \<Rightarrow> json \<Rightarrow> json \<Rightarrow> exn + 'l handler" where
  "get_handler hs resource_type event_type =
     (let event_type = (if event_type = JStr TYPE_MODIFIED then JStr TYPE_ADDED else event_type)
      in if \<not> hashable resource_type \<or> \<not> hashable event_type then Inl TypeError
         else (case (resource_type, event_type) of
                 (JStr r, JStr e) \<Rightarrow> (case hs (r, e) of None \<Rightarrow> Inl KeyError | Some h \<Rightarrow> Inr h)
               | _ \<Rightarrow> Inl KeyError))"

section \<open>State and effects\<close>

text \<open>
  An update on the queue is the tuple \<^verbatim>\<open>(event_type, resource_type, resource)\<close>.
\<close>

type_synonym update = "json \<times> json \<times> json"

datatype level = WARNING | ERROR | EXCEPTION

datatype tls_verify = VerifyCA string | NoVerify

record request =
  url :: string
  headers :: "(string \<times> string) list"
  verify :: tls_verify
  stream :: bool

text \<open>
  What \<^verbatim>\<open>session.get\<close> returns: the status, the body, and for a streamed response
  the lines \<^verbatim>\<open>iter_lines()\<close> yields, followed either by the end of the stream
  (\<open>iter_error = None\<close>) or by an exception raised while reading.
\<close>

record response =
  status_code :: int
  body :: string
  iter_lines :: "string list"
  iter_error :: "exn option"

text \<open>
  The observable effects, in the order the program performs them. Of the log calls those
  at warning level and above are kept, with their format string and arguments; a tuple
  argument is written as a JSON array. Debug and info calls are left out: they change
  nothing that is modelled, and the one argument among theirs that can raise,
  \<^verbatim>\<open>len(resources)\<close>, raises what the iteration after it raises.
\<close>

datatype effect =
    Log level string "json list"
  | HttpGet request
  | Sleep nat
  | SetPolicyTier string json
  | GetEndpoints string
  | CacheSet string
  | StartThread string
  | QueueGet update
  | CallHandler json json "json \<times> json"

text \<open>
  The state the program works on: the cache, the event queue, the answers the API server
  gives to the requests still to come (\<open>Inl\<close> when \<^verbatim>\<open>session.get\<close> raises), and the
  effects so far.
\<close>

record 'l state =
  cache :: "'l cache"
  event_queue :: "update list"
  network :: "(exn + response) list"
  trace :: "effect list"

text \<open>The attributes of \<^verbatim>\<open>PolicyAgent\<close> that \<^verbatim>\<open>__init__\<close> reads from the environment.\<close>

record agent =
  k8s_api :: string
  auth_token :: "string option"
  ca_crt_exists :: bool

text \<open>
  The outcome of a call: it returns, it raises, or it blocks because the model has no
  further answer of the outside world for it.
\<close>

datatype 'a result = Return 'a | Raise exn | Block

definition emit :: "effect \<Rightarrow> 'l state \<Rightarrow> 'l state" where
  "emit e st = st\<lparr>trace := trace st @ [e]\<rparr>"

section \<open>API access\<close>

text \<open>\<^verbatim>\<open>"%s" % v\<close>: a string is inserted as it is.\<close>

definition format_s :: "env \<Rightarrow> json \<Rightarrow> string" where
  "format_s env v = (case v of JStr s \<Rightarrow> s | _ \<Rightarrow> py_str env v)"

text \<open>
  \<^verbatim>\<open>PolicyAgent._api_get\<close>, in two parts: the request it builds, and the call of
  \<^verbatim>\<open>session.get\<close>, which takes the next answer of the network. The headers are those
  the program adds to the session.
\<close>

definition api_get_request :: "agent \<Rightarrow> env \<Rightarrow> string \<Rightarrow> bool \<Rightarrow> json \<Rightarrow> request" where
  "api_get_request ag env path strm resource_version =
     \<lparr>url = (if truthy resource_version
              then path @ ''?resourceVersion='' @ format_s env resource_version
              else path),
      headers = (case auth_token ag of
                   None \<Rightarrow> []
                 | Some t \<Rightarrow> if t \<noteq> [] then [(''Authorization'', ''Bearer '' @ t)] else []),
      verify = (if ca_crt_exists ag then VerifyCA (CA_CERT_PATH env) else NoVerify),
      stream = strm\<rparr>"

definition api_get ::
  "agent \<Rightarrow> env \<Rightarrow> string \<Rightarrow> bool \<Rightarrow> json \<Rightarrow> 'l state \<Rightarrow> response result \<times> 'l state" where
  "api_get ag env path strm resource_version st =
     (let st = emit (HttpGet (api_get_request ag env path strm resource_version)) st
      in case network st of
           [] \<Rightarrow> (Block, st)
         | Inl e # rest \<Rightarrow> (Raise e, st\<lparr>network := rest\<rparr>)
         | Inr resp # rest \<Rightarrow> (Return resp, st\<lparr>network := rest\<rparr>))"

section \<open>Dispatcher\<close>

text \<open>
  \<^verbatim>\<open>PolicyAgent._process_update\<close>. The result is the exception that leaves the function,
  if any.
\<close>

definition process_update ::
  "'l handlers \<Rightarrow> json \<Rightarrow> json \<Rightarrow> json \<Rightarrow> 'l state \<Rightarrow> exn option \<times> 'l state" where
  "process_update hs event_type resource_type resource st =
     (case getitem resource ''metadata'' of
        Inl e \<Rightarrow> (Some e, st)
      | Inr metadata \<Rightarrow>
     (case getitem metadata ''name'' of
        Inl e \<Rightarrow> (Some e, st)
      | Inr name \<Rightarrow>
     (case get_method metadata ''namespace'' JNull of
        Inl e \<Rightarrow> (Some e, st)
      | Inr namespace \<Rightarrow>
     (case get_handler hs resource_type event_type of
        Inl e \<Rightarrow>
          if e = KeyError
          then (None, emit (Log WARNING ''No %s handlers for: %s'' [event_type, resource_type]) st)
          else (Some e, st)
      | Inr handler \<Rightarrow>
          (let st = emit (CallHandler event_type resource_type (namespace, name)) st;
               (r, c) = handler (namespace, name) resource (cache st);
               st = st\<lparr>cache := c\<rparr>
           in case r of
                None \<Rightarrow> (None, st)
              | Some e \<Rightarrow>
                  if e = KeyError
                  then (None, emit (Log EXCEPTION ''Invalid %s: %s'' [resource_type, resource]) st)
                  else (Some e, st))))))"

text \<open>
  A loop that is written to run for ever either waits for the outside world, when the
  model has no further input for it, or has been left by an exception.
\<close>

datatype loop_status = Waiting | Died exn

lemma event_queue_emit [simp]: "event_queue (emit e st) = event_queue st"
  by (simp add: emit_def)

lemma network_emit [simp]: "network (emit e st) = network st"
  by (simp add: emit_def)

lemma cache_emit [simp]: "cache (emit e st) = cache st"
  by (simp add: emit_def)

lemma trace_emit [simp]: "trace (emit e st) = trace st @ [e]"
  by (simp add: emit_def)

lemma process_update_event_queue:
  "process_update hs et rt res st = (r, st') \<Longrightarrow> event_queue st' = event_queue st"
  by (auto simp: process_update_def Let_def split: sum.splits prod.splits option.splits if_splits)

text \<open>
  \<^verbatim>\<open>PolicyAgent.read_updates\<close>. \<^verbatim>\<open>get(block=True)\<close> on an empty queue waits. An
  exception other than \<^verbatim>\<open>KeyError\<close> passes the \<^verbatim>\<open>finally\<close> clause, whose
  \<^verbatim>\<open>task_done()\<close> changes nothing that is modelled, and leaves the loop.
\<close>

function read_updates :: "'l handlers \<Rightarrow> 'l state \<Rightarrow> loop_status \<times> 'l state" where
  "read_updates hs st =
     (case event_queue st of
        [] \<Rightarrow> (Waiting, st)
      | update # rest \<Rightarrow>
          (let st = emit (QueueGet update) (st\<lparr>event_queue := rest\<rparr>);
               (event_type, resource_type, resource) = update;
               (r, st) = process_update hs event_type resource_type resource st
           in case r of
                None \<Rightarrow> read_updates hs st
              | Some e \<Rightarrow>
                  if e = KeyError
                  then read_updates hs
                         (emit (Log EXCEPTION ''Invalid update: %s''
                                  [JArr [event_type, resource_type, resource]]) st)
                  else (Died e, st)))"
  by pat_completeness auto
termination
  by (relation "measure (\<lambda>(hs, st). length (event_queue st))")
     (auto dest!: sym [of "(_, _)" "process_update _ _ _ _ _"] process_update_event_queue)

declare read_updates.simps [simp del]

section \<open>Reflector\<close>

text \<open>
  \<^verbatim>\<open>Queue.put(update, block=True, timeout=QUEUE_PUT_TIMEOUT)\<close> in the case that the
  dispatcher takes nothing from the queue while the call waits: a full queue raises
  \<^verbatim>\<open>Queue.Full\<close>. A size of zero or less is an unbounded queue.
\<close>

definition put :: "env \<Rightarrow> update \<Rightarrow> 'l state \<Rightarrow> exn + 'l state" where
  "put env update st =
     (if 0 < MAX_QUEUE_SIZE env \<and> MAX_QUEUE_SIZE env \<le> int (length (event_queue st))
      then Inl Queue_Full
      else Inr (st\<lparr>event_queue := event_queue st @ [update]\<rparr>))"

text \<open>\<^verbatim>\<open>Response.json()\<close>.\<close>

definition response_json :: "env \<Rightarrow> response \<Rightarrow> exn + json" where
  "response_json env resp =
     (case json_loads env (body resp) of None \<Rightarrow> Inl ValueError | Some j \<Rightarrow> Inr j)"

text \<open>The loop of \<^verbatim>\<open>_sync_resources\<close> over the listed resources.\<close>

fun put_resources :: "env \<Rightarrow> string \<Rightarrow> json list \<Rightarrow> 'l state \<Rightarrow> exn option \<times> 'l state" where
  "put_resources env resource_type [] st = (None, st)"
| "put_resources env resource_type (resource # rest) st =
     (case put env (JStr TYPE_ADDED, JStr resource_type, resource) st of
        Inl e \<Rightarrow> (Some e, st)
      | Inr st \<Rightarrow> put_resources env resource_type rest st)"

text \<open>\<^verbatim>\<open>PolicyAgent._sync_resources\<close>.\<close>

definition sync_resources ::
  "agent \<Rightarrow> env \<Rightarrow> string \<Rightarrow> 'l state \<Rightarrow> json result \<times> 'l state" where
  "sync_resources ag env resource_type st =
     (case GET_URLS env resource_type of
        None \<Rightarrow> (Raise KeyError, st)
      | Some tmpl \<Rightarrow>
     (case api_get ag env (tmpl (k8s_api ag)) False JNull st of
        (Block, st) \<Rightarrow> (Block, st)
      | (Raise e, st) \<Rightarrow> (Raise e, st)
      | (Return resp, st) \<Rightarrow>
          if status_code resp \<noteq> 200
          then (case response_json env resp of
                  Inl e \<Rightarrow> (Raise e, st)
                | Inr j \<Rightarrow>
                    (Raise KubernetesApiError, emit (Log ERROR ''Error querying API: %s'' [j]) st))
          else
     (case response_json env resp of
        Inl e \<Rightarrow> (Raise e, st)
      | Inr j \<Rightarrow>
     (case getitem j ''items'' of
        Inl e \<Rightarrow> (Raise e, st)
      | Inr resources \<Rightarrow>
     (case get_method j ''metadata'' (JObj []) of
        Inl e \<Rightarrow> (Raise e, st)
      | Inr metadata \<Rightarrow>
     (case get_method metadata ''resourceVersion'' JNull of
        Inl e \<Rightarrow> (Raise e, st)
      | Inr resource_version \<Rightarrow>
     (case py_iter resources of
        Inl e \<Rightarrow> (Raise e, st)
      | Inr rs \<Rightarrow>
     (case put_resources env resource_type rs st of
        (Some e, st) \<Rightarrow> (Raise e, st)
      | (None, st) \<Rightarrow> (Return resource_version, st)))))))))"

text \<open>
  The loop of \<^verbatim>\<open>_watch_resource\<close> over the lines of one streamed response. The result
  is the exception raised, if any, and the resource version reached.
\<close>

fun watch_lines ::
  "env \<Rightarrow> string list \<Rightarrow> json \<Rightarrow> 'l state \<Rightarrow> exn option \<times> json \<times> 'l state" where
  "watch_lines env [] resource_version st = (None, resource_version, st)"
| "watch_lines env (line # rest) resource_version st =
     (if line = [] then watch_lines env rest resource_version st
      else
     (case json_loads env line of
        None \<Rightarrow> (Some ValueError, resource_version, st)
      | Some parsed \<Rightarrow>
     (case getitem parsed ''type'' of
        Inl e \<Rightarrow> (Some e, resource_version, st)
      | Inr event_type \<Rightarrow>
          if event_type = JStr TYPE_ERROR
          then (Some KubernetesApiError, resource_version,
                emit (Log ERROR ''Received error from API: %s'' [parsed]) st)
          else
     (case getitem parsed ''object'' of
        Inl e \<Rightarrow> (Some e, resource_version, st)
      | Inr object \<Rightarrow>
     (case getitem object ''kind'' of
        Inl e \<Rightarrow> (Some e, resource_version, st)
      | Inr kind \<Rightarrow>
     (case put env (event_type, kind, object) st of
        Inl e \<Rightarrow> (Some e, resource_version, st)
      | Inr st \<Rightarrow>
     (case getitem object ''metadata'' of
        Inl e \<Rightarrow> (Some e, resource_version, st)
      | Inr metadata \<Rightarrow>
     (case getitem metadata ''resourceVersion'' of
        Inl e \<Rightarrow> (Some e, resource_version, st)
      | Inr new_ver \<Rightarrow> watch_lines env rest new_ver st))))))))"

lemma network_put: "put env u st = Inr st' \<Longrightarrow> network st' = network st"
  by (auto simp: put_def split: if_splits)

lemma network_put_resources:
  "put_resources env rt rs st = (r, st') \<Longrightarrow> network st' = network st"
  by (induction rs arbitrary: st) (auto split: sum.splits dest: network_put)

lemma network_watch_lines:
  "watch_lines env ls rv st = (r, rv', st') \<Longrightarrow> network st' = network st"
  by (induction ls arbitrary: rv st)
     (auto split: if_splits sum.splits option.splits dest: network_put)

lemma network_api_get:
  "api_get ag env path strm rv st = (r, st') \<Longrightarrow>
     (r = Block \<and> network st' = network st)
     \<or> (r \<noteq> Block \<and> length (network st') < length (network st))"
  by (auto simp: api_get_def Let_def split: list.splits sum.splits)

lemma network_watch_step:
  assumes "api_get ag env path strm rv st = (Return resp, st1)"
    and "watch_lines env ls rv st1 = (r, rv', st2)"
  shows "length (network st2) < length (network st)"
proof -
  from assms(1) have "length (network st1) < length (network st)"
    using network_api_get by blast
  moreover from assms(2) have "network st2 = network st1"
    by (rule network_watch_lines)
  ultimately show ?thesis by simp
qed

text \<open>
  The \<^verbatim>\<open>while True\<close> of \<^verbatim>\<open>_watch_resource\<close>. It never returns: it is left by an
  exception (\<open>Some\<close>), or waits for the network (\<open>None\<close>).
\<close>

function watch_loop ::
  "agent \<Rightarrow> env \<Rightarrow> string \<Rightarrow> json \<Rightarrow> 'l state \<Rightarrow> exn option \<times> 'l state" where
  "watch_loop ag env path resource_version st =
     (case api_get ag env path True resource_version st of
        (Block, st) \<Rightarrow> (None, st)
      | (Raise e, st) \<Rightarrow> (Some e, st)
      | (Return response, st) \<Rightarrow>
          if status_code response \<noteq> 200 then (Some KubernetesApiError, st)
          else (case watch_lines env (iter_lines response) resource_version st of
                  (Some e, resource_version, st) \<Rightarrow> (Some e, st)
                | (None, resource_version, st) \<Rightarrow>
                    (case iter_error response of
                       Some e \<Rightarrow> (Some e, st)
                     | None \<Rightarrow> watch_loop ag env path resource_version st)))"
  by pat_completeness auto
termination
  by (relation "measure (\<lambda>(ag, env, path, rv, st). length (network st))")
     (auto dest!: sym [of "(_, _)" "api_get _ _ _ _ _ _"] sym [of "(_, _)" "watch_lines _ _ _ _"]
           intro: network_watch_step)

declare watch_loop.simps [simp del]

text \<open>\<^verbatim>\<open>PolicyAgent._watch_resource\<close>.\<close>

definition watch_resource ::
  "agent \<Rightarrow> env \<Rightarrow> string \<Rightarrow> json \<Rightarrow> 'l state \<Rightarrow> exn option \<times> 'l state" where
  "watch_resource ag env resource_type resource_version st =
     (case WATCH_URLS env resource_type of
        None \<Rightarrow> (Some KeyError, st)
      | Some tmpl \<Rightarrow> watch_loop ag env (tmpl (k8s_api ag)) resource_version st)"

text \<open>
  \<^verbatim>\<open>PolicyAgent._manage_resource\<close>, in four parts: the body of the \<^verbatim>\<open>try\<close>, the
  \<^verbatim>\<open>except\<close> clauses (the log line of the clause that catches the exception, if one
  does), the \<^verbatim>\<open>finally\<close> clause, and the \<^verbatim>\<open>while True\<close> around them.
\<close>

definition sync_and_watch ::
  "agent \<Rightarrow> env \<Rightarrow> string \<Rightarrow> 'l state \<Rightarrow> exn option \<times> 'l state" where
  "sync_and_watch ag env resource_type st =
     (case sync_resources ag env resource_type st of
        (Block, st) \<Rightarrow> (None, st)
      | (Raise e, st) \<Rightarrow> (Some e, st)
      | (Return resource_version, st) \<Rightarrow> watch_resource ag env resource_type resource_version st)"

definition except_clause :: "string \<Rightarrow> exn \<Rightarrow> effect option" where
  "except_clause resource_type e =
     (if e = ConnectionError
      then Some (Log EXCEPTION ''Connection error querying: %s'' [JStr resource_type])
      else if e = HTTPError
      then Some (Log EXCEPTION ''HTTP error querying: %s'' [JStr resource_type])
      else if e = KubernetesApiError
      then Some (Log EXCEPTION ''Kubernetes API error managing %s'' [JStr resource_type])
      else if e = Queue_Full
      then Some (Log EXCEPTION ''Event queue full'' [])
      else None)"

definition finally_clause :: "string \<Rightarrow> 'l state \<Rightarrow> 'l state" where
  "finally_clause resource_type st =
     emit (Sleep 1)
       (emit (Log WARNING ''Re-starting watch on resource: %s'' [JStr resource_type]) st)"

lemma network_finally_clause [simp]: "network (finally_clause rt st) = network st"
  by (simp add: finally_clause_def)

lemma network_sync_resources:
  "sync_resources ag env rt st = (r, st') \<Longrightarrow>
     (r = Block \<and> network st' = network st)
     \<or> (r = Raise KeyError \<and> network st' = network st)
     \<or> length (network st') < length (network st)"
  unfolding sync_resources_def
  by (auto split: option.splits prod.splits result.splits if_splits sum.splits
           dest!: network_api_get network_put_resources)

lemma network_watch_loop:
  "watch_loop ag env path rv st = (r, st') \<Longrightarrow> length (network st') \<le> length (network st)"
proof (induction ag env path rv st rule: watch_loop.induct)
  case (1 ag env path rv st)
  show ?case
  proof (cases "api_get ag env path True rv st")
    case (Pair a st1)
    note ag = network_api_get [OF Pair]
    note unf = watch_loop.simps [of ag env path rv st]
    show ?thesis
    proof (cases a)
      case Block
      with Pair 1(2) ag unf show ?thesis by simp
    next
      case (Raise e)
      with Pair 1(2) ag unf show ?thesis by auto
    next
      case (Return resp)
      obtain x rv' st2 where wl: "watch_lines env (iter_lines resp) rv st1 = (x, rv', st2)"
        by (cases "watch_lines env (iter_lines resp) rv st1") auto
      have n2: "network st2 = network st1"
        using wl by (rule network_watch_lines)
      show ?thesis
      proof (cases "status_code resp = 200 \<and> x = None \<and> iter_error resp = None")
        case True
        with Pair Return wl 1(2) unf have "watch_loop ag env path rv' st2 = (r, st')"
          by simp
        with 1(1) [OF Pair [symmetric] Return _ wl [symmetric]] True
        have "length (network st') \<le> length (network st2)"
          by simp
        with n2 ag Return show ?thesis by simp
      next
        case False
        with Pair Return wl 1(2) unf have "st' = st1 \<or> st' = st2"
          by (auto split: if_splits option.splits)
        with n2 ag Return show ?thesis by auto
      qed
    qed
  qed
qed

lemma network_watch_resource:
  "watch_resource ag env rt rv st = (r, st') \<Longrightarrow> length (network st') \<le> length (network st)"
  unfolding watch_resource_def
  by (auto split: option.splits dest: network_watch_loop)

lemma network_sync_and_watch:
  assumes "sync_and_watch ag env rt st = (Some e, st')" and "e \<noteq> KeyError"
  shows "length (network st') < length (network st)"
proof (cases "sync_resources ag env rt st")
  case (Pair r st1)
  note n1 = network_sync_resources [OF Pair]
  show ?thesis
  proof (cases r)
    case Block
    with Pair assms show ?thesis by (simp add: sync_and_watch_def)
  next
    case (Raise e')
    with Pair assms have "e' = e" "st' = st1" by (simp_all add: sync_and_watch_def)
    with n1 Raise assms(2) show ?thesis by auto
  next
    case (Return rv)
    with Pair assms have "watch_resource ag env rt rv st1 = (Some e, st')"
      by (simp add: sync_and_watch_def)
    then have "length (network st') \<le> length (network st1)"
      by (rule network_watch_resource)
    with n1 Return show ?thesis by auto
  qed
qed

function manage_resource ::
  "agent \<Rightarrow> env \<Rightarrow> string \<Rightarrow> 'l state \<Rightarrow> loop_status \<times> 'l state" where
  "manage_resource ag env resource_type st =
     (case sync_and_watch ag env resource_type st of
        (None, st) \<Rightarrow> (Waiting, st)
      | (Some e, st) \<Rightarrow>
          (case except_clause resource_type e of
             Some logged \<Rightarrow>
               manage_resource ag env resource_type (finally_clause resource_type (emit logged st))
           | None \<Rightarrow> (Died e, finally_clause resource_type st)))"
  by pat_completeness auto
termination
  by (relation "measure (\<lambda>(ag, env, rt, st). length (network st))")
     (auto dest!: sym [of "(_, _)" "sync_and_watch _ _ _ _"]
           simp: except_clause_def split: if_splits
           intro: network_sync_and_watch)

declare manage_resource.simps [simp del]

section \<open>Start-up\<close>

text \<open>
  The datastore client is outside the sources; its two calls are parameters, with
  \<open>Some\<close> and \<open>Inl\<close> for a call that raises. The workload identifier of an endpoint is
  the string \<^verbatim>\<open>str(ep.workload_id)\<close>.
\<close>

record 'l endpoint =
  workload_id :: string
  labels :: 'l

record 'l datastore =
  set_policy_tier_metadata :: "string \<Rightarrow> json \<Rightarrow> exn option"
  get_endpoints :: "string \<Rightarrow> exn + 'l endpoint list"

text \<open>The registrations of \<^verbatim>\<open>PolicyAgent.__init__\<close>, for the six imported handlers.\<close>

definition init_handlers ::
  "env \<Rightarrow> 'l handler \<Rightarrow> 'l handler \<Rightarrow> 'l handler \<Rightarrow> 'l handler \<Rightarrow> 'l handler \<Rightarrow> 'l handler
     \<Rightarrow> 'l handlers" where
  "init_handlers env add_update_network_policy delete_network_policy
       add_update_namespace delete_namespace add_update_pod delete_pod =
     add_handler
       (add_handler
         (add_handler
           (add_handler
             (add_handler
               (add_handler Map.empty
                  (RESOURCE_TYPE_NETWORK_POLICY env) TYPE_ADDED add_update_network_policy)
                (RESOURCE_TYPE_NETWORK_POLICY env) TYPE_DELETED delete_network_policy)
              (RESOURCE_TYPE_NAMESPACE env) TYPE_ADDED add_update_namespace)
            (RESOURCE_TYPE_NAMESPACE env) TYPE_DELETED delete_namespace)
          (RESOURCE_TYPE_POD env) TYPE_ADDED add_update_pod)
        (RESOURCE_TYPE_POD env) TYPE_DELETED delete_pod"

text \<open>\<^verbatim>\<open>PolicyAgent.load_cache\<close> and its loop over the endpoints.\<close>

fun cache_endpoints :: "'l endpoint list \<Rightarrow> 'l state \<Rightarrow> 'l state" where
  "cache_endpoints [] st = st"
| "cache_endpoints (ep # rest) st =
     cache_endpoints rest
       (emit (CacheSet (workload_id ep)) (st\<lparr>cache := (cache st)(workload_id ep \<mapsto> labels ep)\<rparr>))"

definition load_cache :: "'l datastore \<Rightarrow> 'l state \<Rightarrow> exn option \<times> 'l state" where
  "load_cache client st =
     (let st = emit (GetEndpoints ''k8s'') st
      in case get_endpoints client ''k8s'' of
           Inl e \<Rightarrow> (Some e, st)
         | Inr endpoints \<Rightarrow> (None, cache_endpoints endpoints st))"

text \<open>\<^verbatim>\<open>PolicyAgent.start_workers\<close> and its loop over the resource types.\<close>

fun start_threads :: "string list \<Rightarrow> 'l state \<Rightarrow> 'l state" where
  "start_threads [] st = st"
| "start_threads (resource_type # rest) st =
     start_threads rest (emit (StartThread resource_type) st)"

definition start_workers :: "env \<Rightarrow> 'l state \<Rightarrow> 'l state" where
  "start_workers env st =
     start_threads [RESOURCE_TYPE_NETWORK_POLICY env,
                    RESOURCE_TYPE_NAMESPACE env,
                    RESOURCE_TYPE_POD env] st"

text \<open>
  \<^verbatim>\<open>PolicyAgent.run\<close>. The worker threads run beside the dispatcher; what they put on
  the queue is the parameter \<open>arrivals\<close>.
\<close>

definition run ::
  "'l datastore \<Rightarrow> env \<Rightarrow> 'l handlers \<Rightarrow> update list \<Rightarrow> 'l state \<Rightarrow> loop_status \<times> 'l state" where
  "run client env hs arrivals st =
     (let metadata = JObj [(''order'', JNum 50)];
          st = emit (SetPolicyTier (NET_POL_TIER_NAME env) metadata) st
      in case set_policy_tier_metadata client (NET_POL_TIER_NAME env) metadata of
           Some e \<Rightarrow> (Died e, st)
         | None \<Rightarrow>
             (case load_cache client st of
                (Some e, st) \<Rightarrow> (Died e, st)
              | (None, st) \<Rightarrow>
                  (let st = start_workers env st
                   in read_updates hs (st\<lparr>event_queue := event_queue st @ arrivals\<rparr>))))"

section \<open>Example inputs\<close>

text \<open>
  A list response for pods, two lines of a watch stream, and a line cut off in the middle;
  a decoder that knows these texts; an environment and an agent.
\<close>

definition pod_list_body :: string where
  \<open>pod_list_body =
     ''{"items": [{"metadata": {"name": "a", "namespace": "ns", "resourceVersion": "5"}}], "metadata": {"resourceVersion": "5"}}''\<close>

definition pod_a :: json where
  "pod_a = JObj [(''metadata'',
                  JObj [(''name'', JStr ''a''), (''namespace'', JStr ''ns''),
                        (''resourceVersion'', JStr ''5'')])]"

definition pod_list :: json where
  "pod_list = JObj [(''items'', JArr [pod_a]),
                    (''metadata'', JObj [(''resourceVersion'', JStr ''5'')])]"

definition pod_event_line :: string where
  \<open>pod_event_line =
     ''{"type": "MODIFIED", "object": {"kind": "Pod", "metadata": {"name": "a", "namespace": "ns", "resourceVersion": "6"}}}''\<close>

definition pod_a6 :: json where
  "pod_a6 = JObj [(''kind'', JStr ''Pod''),
                  (''metadata'',
                   JObj [(''name'', JStr ''a''), (''namespace'', JStr ''ns''),
                         (''resourceVersion'', JStr ''6'')])]"

definition namespace_event_line :: string where
  \<open>namespace_event_line =
     ''{"type": "ADDED", "object": {"kind": "Namespace", "metadata": {"name": "b", "resourceVersion": "7"}}}''\<close>

definition namespace_b :: json where
  "namespace_b = JObj [(''kind'', JStr ''Namespace''),
                       (''metadata'', JObj [(''name'', JStr ''b''), (''resourceVersion'', JStr ''7'')])]"

definition cut_off_line :: string where
  \<open>cut_off_line = ''{"type": "ADDED", "obj''\<close>

definition bare_list_body :: string where
  \<open>bare_list_body = ''{"items": []}''\<close>

definition null_metadata_list_body :: string where
  \<open>null_metadata_list_body = ''{"items": [], "metadata": null}''\<close>

definition example_loads :: "string \<Rightarrow> json option" where
  "example_loads s =
     (if s = pod_list_body then Some pod_list
      else if s = bare_list_body then Some (JObj [(''items'', JArr [])])
      else if s = null_metadata_list_body
      then Some (JObj [(''items'', JArr []), (''metadata'', JNull)])
      else if s = pod_event_line
      then Some (JObj [(''type'', JStr ''MODIFIED''), (''object'', pod_a6)])
      else if s = namespace_event_line
      then Some (JObj [(''type'', JStr ''ADDED''), (''object'', namespace_b)])
      else None)"

definition example_env :: env where
  "example_env =
     \<lparr>MAX_QUEUE_SIZE = 10,
      CA_CERT_PATH = ''/var/run/secrets/kubernetes.io/serviceaccount/ca.crt'',
      NET_POL_TIER_NAME = ''k8s-network-policy'',
      GET_URLS = [''Pod'' \<mapsto> (\<lambda>api. api @ ''/api/v1/pods'')],
      WATCH_URLS = [''Pod'' \<mapsto> (\<lambda>api. api @ ''/api/v1/watch/pods'')],
      RESOURCE_TYPE_NETWORK_POLICY = ''NetworkPolicy'',
      RESOURCE_TYPE_NAMESPACE = ''Namespace'',
      RESOURCE_TYPE_POD = ''Pod'',
      json_loads = example_loads,
      py_str = (\<lambda>v. ''?'')\<rparr>"

definition example_agent :: agent where
  "example_agent = \<lparr>k8s_api = ''https://k8s'', auth_token = Some ''tok'', ca_crt_exists = True\<rparr>"

definition example_state :: "(exn + response) list \<Rightarrow> unit state" where
  "example_state net = \<lparr>cache = Map.empty, event_queue = [], network = net, trace = []\<rparr>"

definition list_response :: response where
  "list_response = \<lparr>status_code = 200, body = pod_list_body, iter_lines = [], iter_error = None\<rparr>"

definition stream_response :: "string list \<Rightarrow> response" where
  "stream_response ls = \<lparr>status_code = 200, body = [], iter_lines = ls, iter_error = None\<rparr>"

definition bare_list_response :: response where
  "bare_list_response =
     \<lparr>status_code = 200, body = bare_list_body, iter_lines = [], iter_error = None\<rparr>"

text \<open>
  Handlers for the registry: the one for added pods records the pod in the cache, the one
  for added namespaces raises \<^verbatim>\<open>KeyError\<close>, the one for deleted pods raises
  \<^verbatim>\<open>ValueError\<close>.
\<close>

definition example_handlers :: "unit handlers" where
  "example_handlers =
     init_handlers example_env
       (\<lambda>key r c. (None, c)) (\<lambda>key r c. (None, c))
       (\<lambda>key r c. (Some KeyError, c)) (\<lambda>key r c. (None, c))
       (\<lambda>key r c. (None, c(''a'' \<mapsto> ()))) (\<lambda>key r c. (Some ValueError, c))"

definition null_metadata_list_response :: response where
  "null_metadata_list_response =
     \<lparr>status_code = 200, body = null_metadata_list_body, iter_lines = [], iter_error = None\<rparr>"

definition null_metadata_pod :: json where
  "null_metadata_pod = JObj [(''metadata'', JNull)]"

definition nameless_pod :: json where
  "nameless_pod = JObj [(''metadata'', JObj [(''namespace'', JStr ''ns'')])]"

definition example_client :: "unit datastore" where
  "example_client =
     \<lparr>set_policy_tier_metadata = (\<lambda>name metadata. None),
      get_endpoints = (\<lambda>orchestrator_id. Inr [\<lparr>workload_id = ''ns.a'', labels = ()\<rparr>])\<rparr>"

text \<open>The effects that the dispatcher loop performs.\<close>

fun dispatcher_effect :: "effect \<Rightarrow> bool" where
  "dispatcher_effect (QueueGet u) = True"
| "dispatcher_effect (CallHandler et rt key) = True"
| "dispatcher_effect (Log l fmt args) = True"
| "dispatcher_effect e = False"

section \<open>Properties\<close>

lemmas example_texts =
  pod_list_body_def bare_list_body_def null_metadata_list_body_def pod_event_line_def
  namespace_event_line_def cut_off_line_def

subsection \<open>Handler resolution\<close>

text \<open>
  C6. For every resource type \<open>T\<close>, resolving a handler for the event kind Modified gives
  exactly what resolving \<open>(T, Added)\<close> gives, which is the handler registered for
  \<open>(T, Added)\<close> when there is one; and resolving a pair of a resource type and an event
  kind for which, after Modified has been turned into Added, nothing is registered fails
  with \<^verbatim>\<open>KeyError\<close>, the program's no-handler error.
\<close>

theorem get_handler_normalises:
  "get_handler hs (JStr T) (JStr TYPE_MODIFIED) = get_handler hs (JStr T) (JStr TYPE_ADDED)
   \<and> (hs (T, TYPE_ADDED) = Some h \<longrightarrow> get_handler hs (JStr T) (JStr TYPE_MODIFIED) = Inr h)
   \<and> (hs (T, if k = TYPE_MODIFIED then TYPE_ADDED else k) = None
        \<longrightarrow> get_handler hs (JStr T) (JStr k) = Inl KeyError)"
  by (simp add: get_handler_def)

theorem get_handler_normalises_witness:
  "get_handler (add_handler Map.empty ''Pod'' TYPE_ADDED (\<lambda>key r c. (None, c)) :: unit handlers)
       (JStr ''Pod'') (JStr TYPE_MODIFIED)
     = Inr (\<lambda>key r c. (None, c))
   \<and> get_handler (add_handler Map.empty ''Pod'' TYPE_ADDED (\<lambda>key r c. (None, c)) :: unit handlers)
       (JStr ''Pod'') (JStr TYPE_DELETED)
     = Inl KeyError"
  using get_handler_normalises
    [of "add_handler Map.empty ''Pod'' TYPE_ADDED (\<lambda>key r c. (None, c)) :: unit handlers"
        "''Pod''" "\<lambda>key r c. (None, c)" TYPE_DELETED]
  by (simp add: get_handler_def add_handler_def TYPE_ADDED_def TYPE_MODIFIED_def TYPE_DELETED_def)

subsection \<open>API access\<close>



subsection \<open>Facts about the dispatcher\<close>

lemma trace_process_update:
  "\<exists>post. trace (snd (process_update hs et rt res st)) = trace st @ post
          \<and> list_all dispatcher_effect post"
  by (auto simp: process_update_def Let_def split: sum.splits prod.splits option.splits)

lemma trace_read_updates:
  "\<exists>post. trace (snd (read_updates hs st)) = trace st @ post \<and> list_all dispatcher_effect post"
proof (induction "event_queue st" arbitrary: st)
  case Nil
  then show ?case by (simp add: read_updates.simps [of hs st])
next
  case (Cons u rest)
  note unf = read_updates.simps [of hs st]
  note q = Cons(2) [symmetric]
  obtain et rt res where u: "u = (et, rt, res)" by (cases u) auto
  let ?st1 = "emit (QueueGet u) (st\<lparr>event_queue := rest\<rparr>)"
  obtain r st2 where pu: "process_update hs et rt res ?st1 = (r, st2)"
    by (cases "process_update hs et rt res ?st1") auto
  from trace_process_update [of hs et rt res ?st1] pu
  obtain p2 where t2: "trace st2 = trace ?st1 @ p2" and d2: "list_all dispatcher_effect p2"
    by auto
  have t1: "trace ?st1 = trace st @ [QueueGet u]" by simp
  have q2: "rest = event_queue st2"
    using process_update_event_queue [OF pu] by simp
  show ?case
  proof (cases r)
    case None
    with q u pu unf have eq: "read_updates hs st = read_updates hs st2" by simp
    from Cons(1) [OF q2]
    obtain p3 where "trace (snd (read_updates hs st2)) = trace st2 @ p3"
        and "list_all dispatcher_effect p3"
      by auto
    with eq t1 t2 d2 show ?thesis by simp
  next
    case (Some e)
    show ?thesis
    proof (cases "e = KeyError")
      case True
      let ?st3 = "emit (Log EXCEPTION ''Invalid update: %s'' [JArr [et, rt, res]]) st2"
      from q u pu unf Some True have eq: "read_updates hs st = read_updates hs ?st3" by simp
      have "rest = event_queue ?st3" using q2 by simp
      from Cons(1) [OF this]
      obtain p3 where "trace (snd (read_updates hs ?st3)) = trace ?st3 @ p3"
          and "list_all dispatcher_effect p3"
        by auto
      with eq t1 t2 d2 show ?thesis by simp
    next
      case False
      with q u pu unf Some have "read_updates hs st = (Died e, st2)" by simp
      with t1 t2 d2 show ?thesis by simp
    qed
  qed
qed

lemma read_updates_empty: "event_queue st = [] \<Longrightarrow> read_updates hs st = (Waiting, st)"
  by (simp add: read_updates.simps [of hs st])

lemma read_updates_outcome:
  "\<exists>k. event_queue (snd (read_updates hs st)) = drop k (event_queue st)
       \<and> fst (read_updates hs st) \<noteq> Died KeyError"
proof (induction "event_queue st" arbitrary: st)
  case Nil
  then have "event_queue (snd (read_updates hs st)) = drop 0 (event_queue st)
             \<and> fst (read_updates hs st) \<noteq> Died KeyError"
    by (simp add: read_updates.simps [of hs st])
  then show ?case by blast
next
  case (Cons u rest)
  note unf = read_updates.simps [of hs st]
  note q = Cons(2) [symmetric]
  obtain et rt res where u: "u = (et, rt, res)" by (cases u) auto
  let ?st1 = "emit (QueueGet u) (st\<lparr>event_queue := rest\<rparr>)"
  obtain r st2 where pu: "process_update hs et rt res ?st1 = (r, st2)"
    by (cases "process_update hs et rt res ?st1") auto
  have q2: "rest = event_queue st2"
    using process_update_event_queue [OF pu] by simp
  have dr: "drop k rest = drop (Suc k) (event_queue st)" for k
    using q by simp
  show ?case
  proof (cases r)
    case None
    with q u pu unf have eq: "read_updates hs st = read_updates hs st2" by simp
    from Cons(1) [OF q2] obtain k
      where "event_queue (snd (read_updates hs st2)) = drop k (event_queue st2)"
        and "fst (read_updates hs st2) \<noteq> Died KeyError"
      by auto
    with eq q2 dr [of k] have "event_queue (snd (read_updates hs st)) = drop (Suc k) (event_queue st)
        \<and> fst (read_updates hs st) \<noteq> Died KeyError"
      by simp
    then show ?thesis by blast
  next
    case (Some e)
    show ?thesis
    proof (cases "e = KeyError")
      case True
      let ?st3 = "emit (Log EXCEPTION ''Invalid update: %s'' [JArr [et, rt, res]]) st2"
      from q u pu unf Some True have eq: "read_updates hs st = read_updates hs ?st3" by simp
      have q3: "rest = event_queue ?st3" using q2 by simp
      from Cons(1) [OF q3] obtain k
        where "event_queue (snd (read_updates hs ?st3)) = drop k (event_queue ?st3)"
          and "fst (read_updates hs ?st3) \<noteq> Died KeyError"
        by auto
      with eq q3 dr [of k] have "event_queue (snd (read_updates hs st)) = drop (Suc k) (event_queue st)
          \<and> fst (read_updates hs st) \<noteq> Died KeyError"
        by simp
      then show ?thesis by blast
    next
      case False
      with q u pu unf Some have "read_updates hs st = (Died e, st2)" by simp
      with False q2 dr [of 0] have "event_queue (snd (read_updates hs st)) = drop (Suc 0) (event_queue st)
          \<and> fst (read_updates hs st) \<noteq> Died KeyError"
        by simp
      then show ?thesis by blast
    qed
  qed
qed

lemma read_updates_first_effect:
  assumes "event_queue st = u # rest"
  shows "\<exists>post. trace (snd (read_updates hs st)) = trace st @ QueueGet u # post"
proof -
  note unf = read_updates.simps [of hs st]
  obtain et rt res where u: "u = (et, rt, res)" by (cases u) auto
  let ?st1 = "emit (QueueGet u) (st\<lparr>event_queue := rest\<rparr>)"
  obtain r st2 where pu: "process_update hs et rt res ?st1 = (r, st2)"
    by (cases "process_update hs et rt res ?st1") auto
  from trace_process_update [of hs et rt res ?st1] pu
  obtain p2 where t2: "trace st2 = trace st @ QueueGet u # p2"
    by auto
  let ?st3 = "emit (Log EXCEPTION ''Invalid update: %s'' [JArr [et, rt, res]]) st2"
  from assms u pu unf
  have "read_updates hs st = read_updates hs st2 \<or> read_updates hs st = read_updates hs ?st3
        \<or> snd (read_updates hs st) = st2"
    by (auto split: option.splits)
  moreover from trace_read_updates [of hs st2]
  obtain p3 where "trace (snd (read_updates hs st2)) = trace st2 @ p3" by auto
  moreover from trace_read_updates [of hs ?st3]
  obtain p4 where "trace (snd (read_updates hs ?st3)) = trace ?st3 @ p4" by auto
  ultimately show ?thesis using t2 by auto
qed

subsection \<open>Dispatcher\<close>

lemma example_get_handler:
  "get_handler example_handlers (JStr ''Pod'') (JStr ''ADDED'')
     = Inr (\<lambda>key r c. (None, c(''a'' \<mapsto> ())))"
  "get_handler example_handlers (JStr ''Pod'') (JStr ''DELETED'')
     = Inr (\<lambda>key r c. (Some ValueError, c))"
  "get_handler example_handlers (JStr ''Namespace'') (JStr ''ADDED'')
     = Inr (\<lambda>key r c. (Some KeyError, c))"
  by (simp_all add: example_handlers_def init_handlers_def add_handler_def get_handler_def
        example_env_def TYPE_ADDED_def TYPE_DELETED_def TYPE_MODIFIED_def)

text \<open>
  C7, as the program has it. For every dequeued update whose resource is an object that
  has no \<^verbatim>\<open>metadata\<close>, or whose \<^verbatim>\<open>metadata\<close> is an object without \<^verbatim>\<open>name\<close>: the
  dispatcher takes the item from the queue and logs the invalid update, with no call of a
  handler in between and the cache as it was; the loop then behaves as it does from that
  state on the items behind, the next of which is read at once; when nothing is behind, the
  loop waits. Whatever follows, the loop is not left by a \<^verbatim>\<open>KeyError\<close>, and what
  remains on the queue is an end piece of what was behind the item.
\<close>

theorem read_updates_skips_update_without_name:
  assumes "event_queue st = (et, rt, JObj kvs) # rest"
    and "map_of kvs ''metadata'' = None
         \<or> (\<exists>md. map_of kvs ''metadata'' = Some (JObj md) \<and> map_of md ''name'' = None)"
  shows "read_updates hs st
         = read_updates hs
             (st\<lparr>event_queue := rest,
                 trace := trace st @ [QueueGet (et, rt, JObj kvs),
                                      Log EXCEPTION ''Invalid update: %s''
                                        [JArr [et, rt, JObj kvs]]]\<rparr>)
       \<and> (\<exists>post. trace (snd (read_updates hs st))
                  = trace st @ [QueueGet (et, rt, JObj kvs),
                                Log EXCEPTION ''Invalid update: %s'' [JArr [et, rt, JObj kvs]]]
                    @ post
                \<and> list_all dispatcher_effect post)
       \<and> (\<exists>k. event_queue (snd (read_updates hs st)) = drop k rest)
       \<and> fst (read_updates hs st) \<noteq> Died KeyError
       \<and> (rest = []
            \<longrightarrow> read_updates hs st
                = (Waiting,
                   st\<lparr>event_queue := [],
                       trace := trace st @ [QueueGet (et, rt, JObj kvs),
                                            Log EXCEPTION ''Invalid update: %s''
                                              [JArr [et, rt, JObj kvs]]]\<rparr>))
       \<and> (\<forall>u rest'. rest = u # rest'
            \<longrightarrow> (\<exists>post. trace (snd (read_updates hs st))
                      = trace st @ [QueueGet (et, rt, JObj kvs),
                                    Log EXCEPTION ''Invalid update: %s''
                                      [JArr [et, rt, JObj kvs]],
                                    QueueGet u]
                        @ post))"
proof -
  let ?st' = "st\<lparr>event_queue := rest,
                 trace := trace st @ [QueueGet (et, rt, JObj kvs),
                                      Log EXCEPTION ''Invalid update: %s''
                                        [JArr [et, rt, JObj kvs]]]\<rparr>"
  have eq: "read_updates hs st = read_updates hs ?st'"
    using assms
    by (subst read_updates.simps) (auto simp: process_update_def getitem_def emit_def Let_def)
  from trace_read_updates [of hs ?st']
  have tr: "\<exists>post. trace (snd (read_updates hs st))
                  = trace st @ [QueueGet (et, rt, JObj kvs),
                                Log EXCEPTION ''Invalid update: %s'' [JArr [et, rt, JObj kvs]]]
                    @ post
                \<and> list_all dispatcher_effect post"
    by (simp add: eq)
  from read_updates_outcome [of hs ?st']
  have oc: "(\<exists>k. event_queue (snd (read_updates hs st)) = drop k rest)
            \<and> fst (read_updates hs st) \<noteq> Died KeyError"
    by (simp add: eq)
  have em: "rest = [] \<longrightarrow> read_updates hs st = (Waiting, ?st')"
    by (simp add: eq read_updates_empty)
  have nx: "\<exists>post. trace (snd (read_updates hs st))
                      = trace st @ [QueueGet (et, rt, JObj kvs),
                                    Log EXCEPTION ''Invalid update: %s''
                                      [JArr [et, rt, JObj kvs]],
                                    QueueGet u]
                        @ post"
    if "rest = u # rest'" for u rest'
    using read_updates_first_effect [of ?st' u rest' hs] that by (simp add: eq)
  from eq tr oc em nx show ?thesis by blast
qed

theorem read_updates_skips_update_without_name_witness:
  "fst (read_updates example_handlers
          ((example_state [])\<lparr>event_queue := [(JStr ''ADDED'', JStr ''Pod'', nameless_pod),
                                               (JStr ''ADDED'', JStr ''Pod'', pod_a)]\<rparr>))
     = Waiting
   \<and> event_queue (snd (read_updates example_handlers
          ((example_state [])\<lparr>event_queue := [(JStr ''ADDED'', JStr ''Pod'', nameless_pod),
                                               (JStr ''ADDED'', JStr ''Pod'', pod_a)]\<rparr>)))
     = []
   \<and> trace (snd (read_updates example_handlers
          ((example_state [])\<lparr>event_queue := [(JStr ''ADDED'', JStr ''Pod'', nameless_pod),
                                               (JStr ''ADDED'', JStr ''Pod'', pod_a)]\<rparr>)))
     = [QueueGet (JStr ''ADDED'', JStr ''Pod'', nameless_pod),
        Log EXCEPTION ''Invalid update: %s'' [JArr [JStr ''ADDED'', JStr ''Pod'', nameless_pod]],
        QueueGet (JStr ''ADDED'', JStr ''Pod'', pod_a),
        CallHandler (JStr ''ADDED'') (JStr ''Pod'') (JStr ''ns'', JStr ''a'')]"
  using read_updates_skips_update_without_name
    [of "(example_state [])\<lparr>event_queue := [(JStr ''ADDED'', JStr ''Pod'', nameless_pod),
                                               (JStr ''ADDED'', JStr ''Pod'', pod_a)]\<rparr>"
        "JStr ''ADDED''" "JStr ''Pod''" "[(''metadata'', JObj [(''namespace'', JStr ''ns'')])]"
        "[(JStr ''ADDED'', JStr ''Pod'', pod_a)]" example_handlers]
  by (simp add: nameless_pod_def example_state_def read_updates.simps process_update_def
        getitem_def get_method_def pod_a_def example_get_handler emit_def)

text \<open>
  C7 as stated fails: a resource whose \<^verbatim>\<open>metadata\<close> is \<^verbatim>\<open>null\<close> has no
  \<^verbatim>\<open>metadata.name\<close> either, but reading it raises \<^verbatim>\<open>TypeError\<close>, which the
  dispatcher does not catch: the loop ends, and the update behind stays on the queue.
\<close>

theorem read_updates_dies_on_null_metadata:
  "fst (read_updates example_handlers
          ((example_state [])\<lparr>event_queue := [(JStr ''ADDED'', JStr ''Pod'', null_metadata_pod),
                                               (JStr ''ADDED'', JStr ''Pod'', pod_a)]\<rparr>))
     = Died TypeError
   \<and> event_queue (snd (read_updates example_handlers
          ((example_state [])\<lparr>event_queue := [(JStr ''ADDED'', JStr ''Pod'', null_metadata_pod),
                                               (JStr ''ADDED'', JStr ''Pod'', pod_a)]\<rparr>)))
     = [(JStr ''ADDED'', JStr ''Pod'', pod_a)]
   \<and> trace (snd (read_updates example_handlers
          ((example_state [])\<lparr>event_queue := [(JStr ''ADDED'', JStr ''Pod'', null_metadata_pod),
                                               (JStr ''ADDED'', JStr ''Pod'', pod_a)]\<rparr>)))
     = [QueueGet (JStr ''ADDED'', JStr ''Pod'', null_metadata_pod)]"
  by (simp add: example_state_def read_updates.simps process_update_def
        getitem_def get_method_def null_metadata_pod_def emit_def)

text \<open>
  C2, as the program has it. For every update that the dispatcher dequeues and whose
  handler raises \<^verbatim>\<open>KeyError\<close>: the dispatcher takes the item from the queue, calls the
  handler and logs the exception with the resource; the loop then behaves as it does from
  that state, with the cache the handler left, on the items behind, the next of which is
  read at once; when nothing is behind, the loop waits. Whatever follows, the loop is not
  left by a \<^verbatim>\<open>KeyError\<close>, and what remains on the queue is an end piece of what was
  behind the item.
\<close>

theorem read_updates_catches_handler_KeyError:
  assumes "event_queue st = (et, rt, res) # rest"
    and "getitem res ''metadata'' = Inr md"
    and "getitem md ''name'' = Inr name"
    and "get_method md ''namespace'' JNull = Inr ns"
    and "get_handler hs rt et = Inr h"
    and "h (ns, name) res (cache st) = (Some KeyError, c)"
  shows "read_updates hs st
         = read_updates hs
             (st\<lparr>event_queue := rest, cache := c,
                 trace := trace st @ [QueueGet (et, rt, res), CallHandler et rt (ns, name),
                                      Log EXCEPTION ''Invalid %s: %s'' [rt, res]]\<rparr>)
       \<and> (\<exists>post. trace (snd (read_updates hs st))
                  = trace st @ [QueueGet (et, rt, res), CallHandler et rt (ns, name),
                                Log EXCEPTION ''Invalid %s: %s'' [rt, res]]
                    @ post
                \<and> list_all dispatcher_effect post)
       \<and> (\<exists>k. event_queue (snd (read_updates hs st)) = drop k rest)
       \<and> fst (read_updates hs st) \<noteq> Died KeyError
       \<and> (rest = []
            \<longrightarrow> read_updates hs st
                = (Waiting,
                   st\<lparr>event_queue := [], cache := c,
                       trace := trace st @ [QueueGet (et, rt, res), CallHandler et rt (ns, name),
                                            Log EXCEPTION ''Invalid %s: %s'' [rt, res]]\<rparr>))
       \<and> (\<forall>u rest'. rest = u # rest'
            \<longrightarrow> (\<exists>post. trace (snd (read_updates hs st))
                      = trace st @ [QueueGet (et, rt, res), CallHandler et rt (ns, name),
                                    Log EXCEPTION ''Invalid %s: %s'' [rt, res],
                                    QueueGet u]
                        @ post))"
proof -
  let ?st' = "st\<lparr>event_queue := rest, cache := c,
                 trace := trace st @ [QueueGet (et, rt, res), CallHandler et rt (ns, name),
                                      Log EXCEPTION ''Invalid %s: %s'' [rt, res]]\<rparr>"
  have eq: "read_updates hs st = read_updates hs ?st'"
    using assms
    by (subst read_updates.simps) (auto simp: process_update_def emit_def Let_def)
  from trace_read_updates [of hs ?st']
  have tr: "\<exists>post. trace (snd (read_updates hs st))
                  = trace st @ [QueueGet (et, rt, res), CallHandler et rt (ns, name),
                                Log EXCEPTION ''Invalid %s: %s'' [rt, res]]
                    @ post
                \<and> list_all dispatcher_effect post"
    by (simp add: eq)
  from read_updates_outcome [of hs ?st']
  have oc: "(\<exists>k. event_queue (snd (read_updates hs st)) = drop k rest)
            \<and> fst (read_updates hs st) \<noteq> Died KeyError"
    by (simp add: eq)
  have em: "rest = [] \<longrightarrow> read_updates hs st = (Waiting, ?st')"
    by (simp add: eq read_updates_empty)
  have nx: "\<exists>post. trace (snd (read_updates hs st))
                      = trace st @ [QueueGet (et, rt, res), CallHandler et rt (ns, name),
                                    Log EXCEPTION ''Invalid %s: %s'' [rt, res],
                                    QueueGet u]
                        @ post"
    if "rest = u # rest'" for u rest'
    using read_updates_first_effect [of ?st' u rest' hs] that by (simp add: eq)
  from eq tr oc em nx show ?thesis by blast
qed

theorem read_updates_catches_handler_KeyError_witness:
  "fst (read_updates example_handlers
          ((example_state [])\<lparr>event_queue := [(JStr ''ADDED'', JStr ''Namespace'', namespace_b),
                                               (JStr ''ADDED'', JStr ''Pod'', pod_a)]\<rparr>))
     = Waiting
   \<and> event_queue (snd (read_updates example_handlers
          ((example_state [])\<lparr>event_queue := [(JStr ''ADDED'', JStr ''Namespace'', namespace_b),
                                               (JStr ''ADDED'', JStr ''Pod'', pod_a)]\<rparr>)))
     = []
   \<and> trace (snd (read_updates example_handlers
          ((example_state [])\<lparr>event_queue := [(JStr ''ADDED'', JStr ''Namespace'', namespace_b),
                                               (JStr ''ADDED'', JStr ''Pod'', pod_a)]\<rparr>)))
     = [QueueGet (JStr ''ADDED'', JStr ''Namespace'', namespace_b),
        CallHandler (JStr ''ADDED'') (JStr ''Namespace'') (JNull, JStr ''b''),
        Log EXCEPTION ''Invalid %s: %s'' [JStr ''Namespace'', namespace_b],
        QueueGet (JStr ''ADDED'', JStr ''Pod'', pod_a),
        CallHandler (JStr ''ADDED'') (JStr ''Pod'') (JStr ''ns'', JStr ''a'')]"
  using read_updates_catches_handler_KeyError
    [of "(example_state [])\<lparr>event_queue := [(JStr ''ADDED'', JStr ''Namespace'', namespace_b),
                                               (JStr ''ADDED'', JStr ''Pod'', pod_a)]\<rparr>"
        "JStr ''ADDED''" "JStr ''Namespace''" namespace_b "[(JStr ''ADDED'', JStr ''Pod'', pod_a)]"
        "JObj [(''name'', JStr ''b''), (''resourceVersion'', JStr ''7'')]" "JStr ''b''" JNull
        example_handlers "\<lambda>key r c. (Some KeyError, c)" Map.empty]
  by (simp add: namespace_b_def example_state_def read_updates.simps process_update_def
        getitem_def get_method_def pod_a_def example_get_handler emit_def)

text \<open>
  C2 as stated fails: a handler that raises \<^verbatim>\<open>ValueError\<close> ends the dispatcher loop,
  and the update behind the offending one stays on the queue.
\<close>

theorem read_updates_dies_on_handler_ValueError:
  "fst (read_updates example_handlers
          ((example_state [])\<lparr>event_queue := [(JStr ''DELETED'', JStr ''Pod'', pod_a),
                                               (JStr ''ADDED'', JStr ''Pod'', pod_a)]\<rparr>))
     = Died ValueError
   \<and> event_queue (snd (read_updates example_handlers
          ((example_state [])\<lparr>event_queue := [(JStr ''DELETED'', JStr ''Pod'', pod_a),
                                               (JStr ''ADDED'', JStr ''Pod'', pod_a)]\<rparr>)))
     = [(JStr ''ADDED'', JStr ''Pod'', pod_a)]"
  by (simp add: example_state_def read_updates.simps process_update_def
        getitem_def get_method_def pod_a_def example_get_handler emit_def)

subsection \<open>Facts about the reflector\<close>

lemma put_resources_room:
  "MAX_QUEUE_SIZE env \<le> 0 \<or> int (length (event_queue st) + length rs) \<le> MAX_QUEUE_SIZE env \<Longrightarrow>
   put_resources env rt rs st
   = (None, st\<lparr>event_queue := event_queue st @ map (\<lambda>r. (JStr TYPE_ADDED, JStr rt, r)) rs\<rparr>)"
proof (induction rs arbitrary: st)
  case Nil
  then show ?case by simp
next
  case (Cons r rs)
  have p: "put env (JStr TYPE_ADDED, JStr rt, r) st
           = Inr (st\<lparr>event_queue := event_queue st @ [(JStr TYPE_ADDED, JStr rt, r)]\<rparr>)"
    using Cons.prems by (auto simp: put_def)
  have "put_resources env rt rs (st\<lparr>event_queue := event_queue st @ [(JStr TYPE_ADDED, JStr rt, r)]\<rparr>)
        = (None, st\<lparr>event_queue := (event_queue st @ [(JStr TYPE_ADDED, JStr rt, r)])
                                      @ map (\<lambda>r. (JStr TYPE_ADDED, JStr rt, r)) rs\<rparr>)"
    using Cons.prems
      Cons.IH [of "st\<lparr>event_queue := event_queue st @ [(JStr TYPE_ADDED, JStr rt, r)]\<rparr>"]
    by auto
  with p show ?case by simp
qed

lemma sync_resources_success:
  assumes "GET_URLS env rt = Some tmpl"
    and "network st = Inr resp # net"
    and "json_loads env (body resp) = Some j"
    and "status_code resp = 200"
    and "getitem j ''items'' = Inr (JArr items)"
    and "get_method j ''metadata'' (JObj []) = Inr (JObj md)"
    and "MAX_QUEUE_SIZE env \<le> 0
         \<or> int (length (event_queue st) + length items) \<le> MAX_QUEUE_SIZE env"
  shows "sync_resources ag env rt st
         = (Return (case map_of md ''resourceVersion'' of None \<Rightarrow> JNull | Some v \<Rightarrow> v),
            (emit (HttpGet (api_get_request ag env (tmpl (k8s_api ag)) False JNull)) st)
              \<lparr>network := net,
               event_queue := event_queue st @ map (\<lambda>r. (JStr TYPE_ADDED, JStr rt, r)) items\<rparr>)"
proof -
  let ?st1 = "(emit (HttpGet (api_get_request ag env (tmpl (k8s_api ag)) False JNull)) st)
                \<lparr>network := net\<rparr>"
  have pr: "put_resources env rt items ?st1
            = (None, ?st1\<lparr>event_queue := event_queue ?st1
                                           @ map (\<lambda>r. (JStr TYPE_ADDED, JStr rt, r)) items\<rparr>)"
    using assms(7) by (intro put_resources_room) simp
  show ?thesis
    using assms pr
    by (simp add: sync_resources_def api_get_def response_json_def get_method_def
             split: option.splits)
qed

lemma trace_put: "put env u st = Inr st' \<Longrightarrow> trace st' = trace st"
  by (auto simp: put_def split: if_splits)

lemma trace_watch_lines_snd:
  fixes st :: "'a state"
  shows "\<exists>post. trace (snd (snd (watch_lines env ls rv st))) = trace st @ post"
proof (induction ls arbitrary: rv st)
  case Nil
  show ?case by simp
next
  case (Cons l ls)
  have step: "\<exists>post. trace (snd (snd (watch_lines env ls rv1 st1))) = trace st @ post"
    if "trace st1 = trace st" for rv1 and st1 :: "'a state"
    using Cons.IH [of rv1 st1] that by simp
  show ?case
    by (auto split: sum.splits option.splits intro!: step dest!: trace_put)
qed

lemma trace_watch_lines:
  "watch_lines env ls rv st = (r, rv', st') \<Longrightarrow> \<exists>post. trace st' = trace st @ post"
  using trace_watch_lines_snd [of env ls rv st] by simp

lemma trace_api_get:
  "api_get ag env path strm rv st = (a, st1) \<Longrightarrow>
     trace st1 = trace st @ [HttpGet (api_get_request ag env path strm rv)]"
  by (auto simp: api_get_def Let_def split: list.splits sum.splits)

lemma trace_watch_loop_grows:
  fixes st :: "'a state"
  shows "\<exists>post. trace (snd (watch_loop ag env path rv st)) = trace st @ post"
proof (induction ag env path rv st rule: watch_loop.induct)
  case (1 ag env path rv st)
  show ?case
  proof (cases "api_get ag env path True rv st")
    case (Pair a st1)
    note t1 = trace_api_get [OF Pair]
    note unf = watch_loop.simps [of ag env path rv st]
    show ?thesis
    proof (cases a)
      case Block
      with Pair t1 unf show ?thesis by simp
    next
      case (Raise e)
      with Pair t1 unf show ?thesis by simp
    next
      case (Return resp)
      obtain x rv' st2 where wl: "watch_lines env (iter_lines resp) rv st1 = (x, rv', st2)"
        by (cases "watch_lines env (iter_lines resp) rv st1") auto
      from trace_watch_lines [OF wl] obtain p2 where t2: "trace st2 = trace st1 @ p2" ..
      show ?thesis
      proof (cases "status_code resp = 200 \<and> x = None \<and> iter_error resp = None")
        case True
        with Pair Return wl unf
        have eq: "watch_loop ag env path rv st = watch_loop ag env path rv' st2"
          by simp
        from 1 [OF Pair [symmetric] Return _ wl [symmetric]] True
        obtain p3 where "trace (snd (watch_loop ag env path rv' st2)) = trace st2 @ p3"
          by auto
        with eq t1 t2 show ?thesis by simp
      next
        case False
        with Pair Return wl unf have "snd (watch_loop ag env path rv st) = st1
            \<or> snd (watch_loop ag env path rv st) = st2"
          by (auto split: if_splits option.splits)
        with t1 t2 show ?thesis by auto
      qed
    qed
  qed
qed

lemma trace_watch_loop:
  assumes wl: "watch_loop ag env path rv st = (r, st')"
  shows "\<exists>post. trace st' = trace st @ HttpGet (api_get_request ag env path True rv) # post"
proof (cases "api_get ag env path True rv st")
  case (Pair a st1)
  note t1 = trace_api_get [OF Pair]
  note unf = watch_loop.simps [of ag env path rv st]
  show ?thesis
  proof (cases a)
    case Block
    with Pair t1 unf wl show ?thesis by simp
  next
    case (Raise e)
    with Pair t1 unf wl show ?thesis by auto
  next
    case (Return resp)
    obtain x rv' st2 where w2: "watch_lines env (iter_lines resp) rv st1 = (x, rv', st2)"
      by (cases "watch_lines env (iter_lines resp) rv st1") auto
    from trace_watch_lines [OF w2] obtain p2 where t2: "trace st2 = trace st1 @ p2" ..
    show ?thesis
    proof (cases "status_code resp = 200 \<and> x = None \<and> iter_error resp = None")
      case True
      with Pair Return w2 unf wl
      have eq: "watch_loop ag env path rv' st2 = (r, st')"
        by simp
      from trace_watch_loop_grows [of ag env path rv' st2] eq
      obtain p3 where "trace st' = trace st2 @ p3"
        by auto
      with t1 t2 show ?thesis by simp
    next
      case False
      with Pair Return w2 unf wl have "st' = st1 \<or> st' = st2"
        by (auto split: if_splits option.splits)
      with t1 t2 show ?thesis by auto
    qed
  qed
qed

lemma event_queue_put: "put env u st = Inr st' \<Longrightarrow> event_queue st' = event_queue st @ [u]"
  by (auto simp: put_def split: if_splits)

lemma watch_lines_queue_grows:
  fixes st :: "'a state"
  shows "\<exists>more. event_queue (snd (snd (watch_lines env ls rv st))) = event_queue st @ more"
proof (induction ls arbitrary: rv st)
  case Nil
  show ?case by simp
next
  case (Cons l ls)
  have step: "\<exists>more. event_queue (snd (snd (watch_lines env ls rv1 st1))) = event_queue st @ more"
    if "event_queue st1 = event_queue st @ [u]" for rv1 u and st1 :: "'a state"
  proof -
    from Cons.IH [of rv1 st1] obtain more
      where "event_queue (snd (snd (watch_lines env ls rv1 st1))) = event_queue st1 @ more" ..
    with that show ?thesis by simp
  qed
  show ?case
    by (auto split: sum.splits option.splits intro!: Cons.IH dest!: event_queue_put
             intro: step)
qed

lemma watch_lines_blank:
  "list_all (\<lambda>l. l = []) ls \<Longrightarrow> watch_lines env ls rv st = (None, rv, st)"
  by (induction ls) simp_all

lemma watch_lines_append:
  "watch_lines env pre rv st = (None, rv1, st1) \<Longrightarrow>
   watch_lines env (pre @ ls) rv st = watch_lines env ls rv1 st1"
  by (induction pre arbitrary: rv st)
     (auto split: if_splits sum.splits option.splits)

text \<open>
  The managing loop is never left by an exception that one of its \<^verbatim>\<open>except\<close> clauses
  names.
\<close>

lemma manage_resource_died_uncaught:
  "fst (manage_resource ag env rt st) = Died e \<Longrightarrow> except_clause rt e = None"
proof (induction ag env rt st rule: manage_resource.induct)
  case (1 ag env rt st)
  note unf = manage_resource.simps [of ag env rt st]
  show ?case
  proof (cases "sync_and_watch ag env rt st")
    case (Pair r st1)
    show ?thesis
    proof (cases r)
      case None
      with Pair unf 1(2) show ?thesis by simp
    next
      case (Some e')
      show ?thesis
      proof (cases "except_clause rt e'")
        case None
        with Pair Some unf 1(2) show ?thesis by simp
      next
        case (Some l)
        with Pair \<open>r = Some e'\<close> unf 1(2)
        have "fst (manage_resource ag env rt (finally_clause rt (emit l st1))) = Died e"
          by simp
        with 1(1) [OF Pair [symmetric] \<open>r = Some e'\<close> Some] show ?thesis by simp
      qed
    qed
  qed
qed

subsection \<open>Resync\<close>

text \<open>
  C5, as the program has it. For every resync of a resource type whose list request is
  answered with a body that decodes as JSON: if the status is not 200 the resync fails with
  \<^verbatim>\<open>KubernetesApiError\<close>; if the status is 200, the body has a list under \<^verbatim>\<open>items\<close>,
  its \<^verbatim>\<open>metadata\<close> is an object or absent, and the queue has room for all the items, then
  exactly one Added-update per item is put on the queue, in list order, and the cursor
  returned is the \<^verbatim>\<open>resourceVersion\<close> of the response's metadata (\<^verbatim>\<open>None\<close> when it has
  none).
\<close>

theorem sync_resources_lists:
  assumes "GET_URLS env rt = Some tmpl"
    and "network st = Inr resp # net"
    and "json_loads env (body resp) = Some j"
  shows "(status_code resp \<noteq> 200 \<longrightarrow> fst (sync_resources ag env rt st) = Raise KubernetesApiError)
       \<and> (status_code resp = 200 \<and> getitem j ''items'' = Inr (JArr items)
            \<and> get_method j ''metadata'' (JObj []) = Inr (JObj md)
            \<and> (MAX_QUEUE_SIZE env \<le> 0
                 \<or> int (length (event_queue st) + length items) \<le> MAX_QUEUE_SIZE env)
          \<longrightarrow> fst (sync_resources ag env rt st)
                = Return (case map_of md ''resourceVersion'' of None \<Rightarrow> JNull | Some v \<Rightarrow> v)
              \<and> event_queue (snd (sync_resources ag env rt st))
                = event_queue st @ map (\<lambda>r. (JStr TYPE_ADDED, JStr rt, r)) items)"
proof (intro conjI impI)
  assume "status_code resp \<noteq> 200"
  with assms show "fst (sync_resources ag env rt st) = Raise KubernetesApiError"
    by (simp add: sync_resources_def api_get_def response_json_def)
next
  assume a: "status_code resp = 200 \<and> getitem j ''items'' = Inr (JArr items)
            \<and> get_method j ''metadata'' (JObj []) = Inr (JObj md)
            \<and> (MAX_QUEUE_SIZE env \<le> 0
                 \<or> int (length (event_queue st) + length items) \<le> MAX_QUEUE_SIZE env)"
  from a have a1: "status_code resp = 200"
    and a2: "getitem j ''items'' = Inr (JArr items)"
    and a3: "get_method j ''metadata'' (JObj []) = Inr (JObj md)"
    and a4: "MAX_QUEUE_SIZE env \<le> 0
             \<or> int (length (event_queue st) + length items) \<le> MAX_QUEUE_SIZE env"
    by blast+
  note s = sync_resources_success [OF assms a1 a2 a3 a4, of ag]
  show "fst (sync_resources ag env rt st)
          = Return (case map_of md ''resourceVersion'' of None \<Rightarrow> JNull | Some v \<Rightarrow> v)"
    by (simp add: s)
  show "event_queue (snd (sync_resources ag env rt st))
          = event_queue st @ map (\<lambda>r. (JStr TYPE_ADDED, JStr rt, r)) items"
    by (simp add: s)
qed

theorem sync_resources_lists_witness:
  "fst (sync_resources example_agent example_env ''Pod'' (example_state [Inr list_response]))
     = Return (JStr ''5'')
   \<and> event_queue (snd (sync_resources example_agent example_env ''Pod''
                         (example_state [Inr list_response])))
     = [(JStr ''ADDED'', JStr ''Pod'', pod_a)]
   \<and> fst (sync_resources example_agent example_env ''Pod''
            (example_state [Inr (list_response\<lparr>status_code := 500\<rparr>)]))
     = Raise KubernetesApiError"
  using sync_resources_lists [of example_env "''Pod''" "\<lambda>api. api @ ''/api/v1/pods''"
          "example_state [Inr list_response]" list_response "[]" pod_list example_agent
          "[pod_a]" "[(''resourceVersion'', JStr ''5'')]"]
        sync_resources_lists [of example_env "''Pod''" "\<lambda>api. api @ ''/api/v1/pods''"
          "example_state [Inr (list_response\<lparr>status_code := 500\<rparr>)]"
          "list_response\<lparr>status_code := 500\<rparr>" "[]" pod_list example_agent
          "[pod_a]" "[(''resourceVersion'', JStr ''5'')]"]
  by (simp add: example_env_def example_state_def list_response_def example_loads_def example_texts
        pod_list_def getitem_def get_method_def TYPE_ADDED_def)

text \<open>
  C5 as stated fails: with a queue of size one that already holds an update, a list
  request answered with status 200 and one item ends in \<^verbatim>\<open>Queue.Full\<close>; no Added-update
  for the item is on the queue and no cursor is returned.
\<close>

theorem sync_resources_full_queue:
  "status_code list_response = 200
   \<and> fst (sync_resources example_agent (example_env\<lparr>MAX_QUEUE_SIZE := 1\<rparr>) ''Pod''
        ((example_state [Inr list_response])
           \<lparr>event_queue := [(JStr ''ADDED'', JStr ''Pod'', pod_a6)]\<rparr>))
     = Raise Queue_Full
   \<and> event_queue (snd (sync_resources example_agent (example_env\<lparr>MAX_QUEUE_SIZE := 1\<rparr>) ''Pod''
        ((example_state [Inr list_response])
           \<lparr>event_queue := [(JStr ''ADDED'', JStr ''Pod'', pod_a6)]\<rparr>)))
     = [(JStr ''ADDED'', JStr ''Pod'', pod_a6)]"
  by (simp add: sync_resources_def api_get_def response_json_def get_method_def getitem_def
       example_env_def example_state_def list_response_def example_loads_def example_texts pod_list_def
       put_def emit_def)

text \<open>
  C10, as the program has it. If the body of a list response answered with status 200 has
  a list under \<^verbatim>\<open>items\<close> and either no \<^verbatim>\<open>metadata\<close> or a \<^verbatim>\<open>metadata\<close> object without
  \<^verbatim>\<open>resourceVersion\<close>, and the queue has room for the items, the resync succeeds: it
  puts the items on the queue and returns \<^verbatim>\<open>None\<close> as the cursor, and the next thing the
  reflector does is to issue the watch request, whose URL is the watch path with no query
  parameter.
\<close>

theorem sync_without_resource_version:
  assumes "GET_URLS env rt = Some g"
    and "WATCH_URLS env rt = Some w"
    and "network st = Inr resp # net"
    and "status_code resp = 200"
    and "json_loads env (body resp) = Some (JObj kvs)"
    and "map_of kvs ''items'' = Some (JArr items)"
    and "map_of kvs ''metadata'' = None
         \<or> (\<exists>md. map_of kvs ''metadata'' = Some (JObj md) \<and> map_of md ''resourceVersion'' = None)"
    and "MAX_QUEUE_SIZE env \<le> 0
         \<or> int (length (event_queue st) + length items) \<le> MAX_QUEUE_SIZE env"
  shows "fst (sync_resources ag env rt st) = Return JNull
       \<and> event_queue (snd (sync_resources ag env rt st))
           = event_queue st @ map (\<lambda>r. (JStr TYPE_ADDED, JStr rt, r)) items
       \<and> (\<exists>post. trace (snd (sync_and_watch ag env rt st))
                  = trace (snd (sync_resources ag env rt st))
                    @ HttpGet (api_get_request ag env (w (k8s_api ag)) True JNull) # post)
       \<and> url (api_get_request ag env (w (k8s_api ag)) True JNull) = w (k8s_api ag)"
proof -
  from assms(7) obtain md where md: "get_method (JObj kvs) ''metadata'' (JObj []) = Inr (JObj md)"
      and rv: "map_of md ''resourceVersion'' = None"
    by (auto simp: get_method_def)
  have it: "getitem (JObj kvs) ''items'' = Inr (JArr items)"
    using assms(6) by (simp add: getitem_def)
  have s: "fst (sync_resources ag env rt st) = Return JNull"
    using sync_resources_success [OF assms(1,3,5,4) it md assms(8), of ag] rv by simp
  have q: "event_queue (snd (sync_resources ag env rt st))
           = event_queue st @ map (\<lambda>r. (JStr TYPE_ADDED, JStr rt, r)) items"
    using sync_resources_success [OF assms(1,3,5,4) it md assms(8), of ag] by simp
  obtain st1 where s1: "sync_resources ag env rt st = (Return JNull, st1)"
    using s by (cases "sync_resources ag env rt st") auto
  obtain r st2 where wl: "watch_loop ag env (w (k8s_api ag)) JNull st1 = (r, st2)"
    by (cases "watch_loop ag env (w (k8s_api ag)) JNull st1") auto
  from trace_watch_loop [OF wl] obtain post
    where "trace st2 = trace st1 @ HttpGet (api_get_request ag env (w (k8s_api ag)) True JNull) # post" ..
  then have "trace (snd (sync_and_watch ag env rt st))
             = trace (snd (sync_resources ag env rt st))
               @ HttpGet (api_get_request ag env (w (k8s_api ag)) True JNull) # post"
    using s1 wl assms(2) by (simp add: sync_and_watch_def watch_resource_def)
  with s q show ?thesis by (auto simp: api_get_request_def)
qed

theorem sync_without_resource_version_witness:
  "fst (sync_resources example_agent example_env ''Pod'' (example_state [Inr bare_list_response]))
     = Return JNull
   \<and> trace (snd (sync_and_watch example_agent example_env ''Pod''
                   (example_state [Inr bare_list_response])))
     = [HttpGet \<lparr>url = ''https://k8s/api/v1/pods'',
                 headers = [(''Authorization'', ''Bearer tok'')],
                 verify = VerifyCA ''/var/run/secrets/kubernetes.io/serviceaccount/ca.crt'',
                 stream = False\<rparr>,
        HttpGet \<lparr>url = ''https://k8s/api/v1/watch/pods'',
                 headers = [(''Authorization'', ''Bearer tok'')],
                 verify = VerifyCA ''/var/run/secrets/kubernetes.io/serviceaccount/ca.crt'',
                 stream = True\<rparr>]"
  using sync_without_resource_version [of example_env "''Pod''" "\<lambda>api. api @ ''/api/v1/pods''"
          "\<lambda>api. api @ ''/api/v1/watch/pods''" "example_state [Inr bare_list_response]"
          bare_list_response "[]" "[(''items'', JArr [])]" "[]" example_agent]
  by (simp add: sync_and_watch_def sync_resources_def watch_resource_def watch_loop.simps
        api_get_def api_get_request_def response_json_def getitem_def get_method_def
        example_env_def example_agent_def example_state_def bare_list_response_def
        example_loads_def example_texts pod_list_body_def bare_list_body_def emit_def)

text \<open>
  C10 as stated fails: a list response whose \<^verbatim>\<open>metadata\<close> is \<^verbatim>\<open>null\<close> has no metadata
  object and no \<^verbatim>\<open>resourceVersion\<close>, but the resync does not succeed: reading the
  cursor raises \<^verbatim>\<open>AttributeError\<close>, no watch request is issued, and the managing loop,
  which does not catch the exception, ends.
\<close>

theorem sync_resources_null_metadata:
  "fst (sync_resources example_agent example_env ''Pod''
          (example_state [Inr null_metadata_list_response]))
     = Raise AttributeError
   \<and> fst (manage_resource example_agent example_env ''Pod''
          (example_state [Inr null_metadata_list_response, Inr (stream_response [])]))
     = Died AttributeError
   \<and> trace (snd (manage_resource example_agent example_env ''Pod''
          (example_state [Inr null_metadata_list_response, Inr (stream_response [])])))
     = [HttpGet (api_get_request example_agent example_env ''https://k8s/api/v1/pods'' False JNull),
        Log WARNING ''Re-starting watch on resource: %s'' [JStr ''Pod''],
        Sleep 1]"
  by (simp add: manage_resource.simps sync_and_watch_def sync_resources_def api_get_def
        response_json_def getitem_def get_method_def except_clause_def finally_clause_def
        emit_def example_env_def example_agent_def example_state_def
        null_metadata_list_response_def example_loads_def example_texts)

subsection \<open>Watch\<close>

text \<open>
  C3, as the program has it. For every line of a watch stream that is not blank, decodes
  to an envelope with \<^verbatim>\<open>type\<close> other than Error and an \<^verbatim>\<open>object\<close> that has \<^verbatim>\<open>kind\<close> and
  \<^verbatim>\<open>metadata.resourceVersion\<close>, and arrives while the queue has room: the update put on
  the queue, behind what the queue held, is \<^verbatim>\<open>(type, object.kind, object)\<close>, its resource
  type being the kind the object itself names; the lines behind it are read with the
  cursor set to \<^verbatim>\<open>object.metadata.resourceVersion\<close>, and when only blank lines follow,
  that is the cursor the reflector has reached at the end of the stream.
\<close>

theorem watch_lines_enqueues_object_kind:
  assumes "line \<noteq> []"
    and "json_loads env line = Some parsed"
    and "getitem parsed ''type'' = Inr event_type"
    and "event_type \<noteq> JStr TYPE_ERROR"
    and "getitem parsed ''object'' = Inr object"
    and "getitem object ''kind'' = Inr kind"
    and "MAX_QUEUE_SIZE env \<le> 0 \<or> int (length (event_queue st)) < MAX_QUEUE_SIZE env"
    and "getitem object ''metadata'' = Inr metadata"
    and "getitem metadata ''resourceVersion'' = Inr new_ver"
  shows "watch_lines env (line # rest) resource_version st
         = watch_lines env rest new_ver
             (st\<lparr>event_queue := event_queue st @ [(event_type, kind, object)]\<rparr>)
       \<and> (\<exists>more. event_queue (snd (snd (watch_lines env (line # rest) resource_version st)))
                  = event_queue st @ (event_type, kind, object) # more)
       \<and> (list_all (\<lambda>l. l = []) rest
            \<longrightarrow> watch_lines env (line # rest) resource_version st
                = (None, new_ver,
                   st\<lparr>event_queue := event_queue st @ [(event_type, kind, object)]\<rparr>))"
proof -
  let ?st1 = "st\<lparr>event_queue := event_queue st @ [(event_type, kind, object)]\<rparr>"
  have eq: "watch_lines env (line # rest) resource_version st = watch_lines env rest new_ver ?st1"
    using assms by (auto simp: put_def)
  have q: "\<exists>more. event_queue (snd (snd (watch_lines env (line # rest) resource_version st)))
                  = event_queue st @ (event_type, kind, object) # more"
    unfolding eq using watch_lines_queue_grows [of env rest new_ver ?st1] by simp
  have b: "list_all (\<lambda>l. l = []) rest
            \<longrightarrow> watch_lines env (line # rest) resource_version st = (None, new_ver, ?st1)"
    unfolding eq by (simp add: watch_lines_blank)
  from eq q b show ?thesis by blast
qed

theorem watch_lines_enqueues_object_kind_witness:
  "watch_lines example_env [pod_event_line] (JStr ''5'') (example_state [])
   = (None, JStr ''6'',
      (example_state [])\<lparr>event_queue := [(JStr ''MODIFIED'', JStr ''Pod'', pod_a6)]\<rparr>)"
  using watch_lines_enqueues_object_kind [of pod_event_line example_env
          "JObj [(''type'', JStr ''MODIFIED''), (''object'', pod_a6)]" "JStr ''MODIFIED''"
          pod_a6 "JStr ''Pod''" "example_state []"
          "JObj [(''name'', JStr ''a''), (''namespace'', JStr ''ns''),
                 (''resourceVersion'', JStr ''6'')]"
          "JStr ''6''" "[]" "JStr ''5''"]
  by (simp add: example_env_def example_state_def example_loads_def example_texts pod_event_line_def
        pod_list_body_def bare_list_body_def pod_a6_def getitem_def TYPE_ERROR_def)

text \<open>
  C3 as stated fails: a reflector started for pods that reads a line whose object names
  the kind \<^verbatim>\<open>Namespace\<close> puts an update of resource type \<^verbatim>\<open>Namespace\<close> on the queue.
\<close>

theorem watch_resource_enqueues_other_kind:
  "event_queue (snd (watch_resource example_agent example_env ''Pod'' (JStr ''5'')
                      (example_state [Inr (stream_response [namespace_event_line])])))
   = [(JStr ''ADDED'', JStr ''Namespace'', namespace_b)]
   \<and> JStr ''Namespace'' \<noteq> JStr ''Pod''"
  by (simp add: watch_resource_def watch_loop.simps api_get_def stream_response_def
        example_env_def example_state_def example_loads_def example_texts namespace_event_line_def
        pod_list_body_def bare_list_body_def pod_event_line_def namespace_b_def getitem_def
        TYPE_ERROR_def put_def emit_def)

text \<open>
  C4, as the program has it. The reflector leaves Watch, with the exception, whenever the
  streaming request itself fails (a transport failure of the request), is answered with a
  status other than 200 (\<^verbatim>\<open>KubernetesApiError\<close>), a line of the stream does not decode
  (\<^verbatim>\<open>ValueError\<close>, the lines before it having been handled), handling a line raises
  anything else, or reading the stream fails (a transport failure while reading). When the
  stream ends with no error, the reflector stays in Watch: the loop goes on from the cursor
  it has reached, and the next thing it does is to issue the streaming request again, for
  that cursor.
\<close>

theorem watch_loop_leaves_on_failure_only:
  "(network st = Inl e # net
      \<longrightarrow> watch_loop ag env path resource_version st
          = (Some e, (emit (HttpGet (api_get_request ag env path True resource_version)) st)
                        \<lparr>network := net\<rparr>))
   \<and> (network st = Inr response # net \<and> status_code response \<noteq> 200
      \<longrightarrow> watch_loop ag env path resource_version st
          = (Some KubernetesApiError,
             (emit (HttpGet (api_get_request ag env path True resource_version)) st)
               \<lparr>network := net\<rparr>))
   \<and> (network st = Inr response # net \<and> status_code response = 200
        \<and> iter_lines response = pre @ line # rest
        \<and> watch_lines env pre resource_version
             ((emit (HttpGet (api_get_request ag env path True resource_version)) st)
                \<lparr>network := net\<rparr>)
           = (None, ver, st')
        \<and> line \<noteq> [] \<and> json_loads env line = None
      \<longrightarrow> watch_loop ag env path resource_version st = (Some ValueError, st'))
   \<and> (network st = Inr response # net \<and> status_code response = 200
        \<and> watch_lines env (iter_lines response) resource_version
             ((emit (HttpGet (api_get_request ag env path True resource_version)) st)
                \<lparr>network := net\<rparr>)
           = (Some e, ver, st')
      \<longrightarrow> watch_loop ag env path resource_version st = (Some e, st'))
   \<and> (network st = Inr response # net \<and> status_code response = 200
        \<and> watch_lines env (iter_lines response) resource_version
             ((emit (HttpGet (api_get_request ag env path True resource_version)) st)
                \<lparr>network := net\<rparr>)
           = (None, ver, st')
        \<and> iter_error response = Some e
      \<longrightarrow> watch_loop ag env path resource_version st = (Some e, st'))
   \<and> (network st = Inr response # net \<and> status_code response = 200
        \<and> watch_lines env (iter_lines response) resource_version
             ((emit (HttpGet (api_get_request ag env path True resource_version)) st)
                \<lparr>network := net\<rparr>)
           = (None, ver, st')
        \<and> iter_error response = None
      \<longrightarrow> watch_loop ag env path resource_version st = watch_loop ag env path ver st'
        \<and> (\<exists>post. trace (snd (watch_loop ag env path resource_version st))
                   = trace st' @ HttpGet (api_get_request ag env path True ver) # post))"
proof -
  let ?s = "(emit (HttpGet (api_get_request ag env path True resource_version)) st)
              \<lparr>network := net\<rparr>"
  note unf = watch_loop.simps [of ag env path resource_version st]
  have c1: "network st = Inl e # net
      \<longrightarrow> watch_loop ag env path resource_version st = (Some e, ?s)"
    by (simp add: unf api_get_def)
  have c2: "network st = Inr response # net \<and> status_code response \<noteq> 200
      \<longrightarrow> watch_loop ag env path resource_version st = (Some KubernetesApiError, ?s)"
    by (simp add: unf api_get_def)
  have c4: "network st = Inr response # net \<and> status_code response = 200
        \<and> watch_lines env (iter_lines response) resource_version ?s = (Some e, ver, st')
      \<longrightarrow> watch_loop ag env path resource_version st = (Some e, st')"
    by (simp add: unf api_get_def)
  have c3: "network st = Inr response # net \<and> status_code response = 200
        \<and> iter_lines response = pre @ line # rest
        \<and> watch_lines env pre resource_version ?s = (None, ver, st')
        \<and> line \<noteq> [] \<and> json_loads env line = None
      \<longrightarrow> watch_loop ag env path resource_version st = (Some ValueError, st')"
  proof (intro impI, elim conjE)
    assume a: "network st = Inr response # net" "status_code response = 200"
      "iter_lines response = pre @ line # rest"
      "watch_lines env pre resource_version ?s = (None, ver, st')"
      "line \<noteq> []" "json_loads env line = None"
    have "watch_lines env (iter_lines response) resource_version ?s
          = watch_lines env (line # rest) ver st'"
      using watch_lines_append [OF a(4), of "line # rest"] a(3) by simp
    also have "\<dots> = (Some ValueError, ver, st')"
      using a(5,6) by simp
    finally show "watch_loop ag env path resource_version st = (Some ValueError, st')"
      using a(1,2) by (simp add: unf api_get_def)
  qed
  have c5: "network st = Inr response # net \<and> status_code response = 200
        \<and> watch_lines env (iter_lines response) resource_version ?s = (None, ver, st')
        \<and> iter_error response = Some e
      \<longrightarrow> watch_loop ag env path resource_version st = (Some e, st')"
    by (simp add: unf api_get_def)
  have c6: "network st = Inr response # net \<and> status_code response = 200
        \<and> watch_lines env (iter_lines response) resource_version ?s = (None, ver, st')
        \<and> iter_error response = None
      \<longrightarrow> watch_loop ag env path resource_version st = watch_loop ag env path ver st'
        \<and> (\<exists>post. trace (snd (watch_loop ag env path resource_version st))
                   = trace st' @ HttpGet (api_get_request ag env path True ver) # post)"
  proof (intro impI, elim conjE)
    assume a: "network st = Inr response # net" "status_code response = 200"
      "watch_lines env (iter_lines response) resource_version ?s = (None, ver, st')"
      "iter_error response = None"
    then have eq: "watch_loop ag env path resource_version st = watch_loop ag env path ver st'"
      by (simp add: unf api_get_def)
    obtain r st2 where wl: "watch_loop ag env path ver st' = (r, st2)"
      by (cases "watch_loop ag env path ver st'") auto
    from trace_watch_loop [OF wl] obtain post
      where "trace st2 = trace st' @ HttpGet (api_get_request ag env path True ver) # post" ..
    with eq wl show "watch_loop ag env path resource_version st = watch_loop ag env path ver st'
        \<and> (\<exists>post. trace (snd (watch_loop ag env path resource_version st))
                   = trace st' @ HttpGet (api_get_request ag env path True ver) # post)"
      by simp
  qed
  from c1 c2 c3 c4 c5 c6 show ?thesis by blast
qed

theorem watch_loop_leaves_on_failure_only_witness:
  "watch_loop example_agent example_env ''https://k8s/api/v1/watch/pods'' (JStr ''5'')
     (example_state [Inr (stream_response [pod_event_line]), Inr (stream_response [cut_off_line])])
   = (Some ValueError,
      (example_state [])
        \<lparr>event_queue := [(JStr ''MODIFIED'', JStr ''Pod'', pod_a6)],
         trace := [HttpGet (api_get_request example_agent example_env
                              ''https://k8s/api/v1/watch/pods'' True (JStr ''5'')),
                   HttpGet (api_get_request example_agent example_env
                              ''https://k8s/api/v1/watch/pods'' True (JStr ''6''))]\<rparr>)
   \<and> watch_loop example_agent example_env ''https://k8s/api/v1/watch/pods'' (JStr ''5'')
       (example_state [Inl ConnectionError, Inr (stream_response [pod_event_line])])
     = (Some ConnectionError,
        (example_state [Inr (stream_response [pod_event_line])])
          \<lparr>trace := [HttpGet (api_get_request example_agent example_env
                                ''https://k8s/api/v1/watch/pods'' True (JStr ''5''))]\<rparr>)
   \<and> watch_loop example_agent example_env ''https://k8s/api/v1/watch/pods'' (JStr ''5'')
       (example_state [Inr ((stream_response [pod_event_line])\<lparr>status_code := 500\<rparr>),
                       Inr (stream_response [pod_event_line])])
     = (Some KubernetesApiError,
        (example_state [Inr (stream_response [pod_event_line])])
          \<lparr>trace := [HttpGet (api_get_request example_agent example_env
                                ''https://k8s/api/v1/watch/pods'' True (JStr ''5''))]\<rparr>)
   \<and> watch_loop example_agent example_env ''https://k8s/api/v1/watch/pods'' (JStr ''5'')
       (example_state [Inr ((stream_response [pod_event_line])
                              \<lparr>iter_error := Some (OtherException ''ChunkedEncodingError'')\<rparr>),
                       Inr (stream_response [pod_event_line])])
     = (Some (OtherException ''ChunkedEncodingError''),
        (example_state [Inr (stream_response [pod_event_line])])
          \<lparr>event_queue := [(JStr ''MODIFIED'', JStr ''Pod'', pod_a6)],
           trace := [HttpGet (api_get_request example_agent example_env
                                ''https://k8s/api/v1/watch/pods'' True (JStr ''5''))]\<rparr>)"
  using watch_loop_leaves_on_failure_only
    [where st = "example_state [Inr (stream_response [pod_event_line]),
                                Inr (stream_response [cut_off_line])]"
       and response = "stream_response [pod_event_line]"
       and net = "[Inr (stream_response [cut_off_line])]"
       and env = example_env and resource_version = "JStr ''5''" and ag = example_agent
       and path = "''https://k8s/api/v1/watch/pods''" and ver = "JStr ''6''"
       and st' = "(example_state [Inr (stream_response [cut_off_line])])
          \<lparr>event_queue := [(JStr ''MODIFIED'', JStr ''Pod'', pod_a6)],
           trace := [HttpGet (api_get_request example_agent example_env
                                ''https://k8s/api/v1/watch/pods'' True (JStr ''5''))]\<rparr>"
       and e = ValueError and pre = "[]" and line = cut_off_line and rest = "[]"]
    watch_loop_leaves_on_failure_only
    [where st = "(example_state [Inr (stream_response [cut_off_line])])
          \<lparr>event_queue := [(JStr ''MODIFIED'', JStr ''Pod'', pod_a6)],
           trace := [HttpGet (api_get_request example_agent example_env
                                ''https://k8s/api/v1/watch/pods'' True (JStr ''5''))]\<rparr>"
       and response = "stream_response [cut_off_line]" and net = "[]"
       and env = example_env and resource_version = "JStr ''6''" and ag = example_agent
       and path = "''https://k8s/api/v1/watch/pods''" and ver = "JStr ''6''"
       and st' = "(example_state [])
          \<lparr>event_queue := [(JStr ''MODIFIED'', JStr ''Pod'', pod_a6)],
           trace := [HttpGet (api_get_request example_agent example_env
                                ''https://k8s/api/v1/watch/pods'' True (JStr ''5'')),
                     HttpGet (api_get_request example_agent example_env
                                ''https://k8s/api/v1/watch/pods'' True (JStr ''6''))]\<rparr>"
       and e = ValueError and pre = "[]" and line = cut_off_line and rest = "[]"]
    watch_loop_leaves_on_failure_only
    [where st = "example_state [Inl ConnectionError, Inr (stream_response [pod_event_line])]"
       and net = "[Inr (stream_response [pod_event_line])]"
       and env = example_env and resource_version = "JStr ''5''" and ag = example_agent
       and path = "''https://k8s/api/v1/watch/pods''" and e = ConnectionError]
    watch_loop_leaves_on_failure_only
    [where st = "example_state [Inr ((stream_response [pod_event_line])\<lparr>status_code := 500\<rparr>),
                                Inr (stream_response [pod_event_line])]"
       and response = "(stream_response [pod_event_line])\<lparr>status_code := 500\<rparr>"
       and net = "[Inr (stream_response [pod_event_line])]"
       and env = example_env and resource_version = "JStr ''5''" and ag = example_agent
       and path = "''https://k8s/api/v1/watch/pods''"]
    watch_loop_leaves_on_failure_only
    [where st = "example_state [Inr ((stream_response [pod_event_line])
                              \<lparr>iter_error := Some (OtherException ''ChunkedEncodingError'')\<rparr>),
                       Inr (stream_response [pod_event_line])]"
       and response = "(stream_response [pod_event_line])
                              \<lparr>iter_error := Some (OtherException ''ChunkedEncodingError'')\<rparr>"
       and net = "[Inr (stream_response [pod_event_line])]"
       and env = example_env and resource_version = "JStr ''5''" and ag = example_agent
       and path = "''https://k8s/api/v1/watch/pods''" and ver = "JStr ''6''"
       and st' = "(example_state [Inr (stream_response [pod_event_line])])
          \<lparr>event_queue := [(JStr ''MODIFIED'', JStr ''Pod'', pod_a6)],
           trace := [HttpGet (api_get_request example_agent example_env
                                ''https://k8s/api/v1/watch/pods'' True (JStr ''5''))]\<rparr>"
       and e = "OtherException ''ChunkedEncodingError''"]
  by (simp add: watch_loop.simps api_get_def stream_response_def example_env_def
        example_state_def example_loads_def example_texts pod_a6_def getitem_def
        TYPE_ERROR_def put_def emit_def)

text \<open>
  C4 as stated fails: when the stream of a watch for pods ends with no error, the
  reflector does not leave Watch. No exception is raised; a second streaming request is
  issued from within Watch, from the cursor reached, and the reflector waits for its
  answer.
\<close>

theorem watch_resource_reissues_request:
  "fst (watch_resource example_agent example_env ''Pod'' (JStr ''5'')
          (example_state [Inr (stream_response [pod_event_line])]))
     = None
   \<and> trace (snd (watch_resource example_agent example_env ''Pod'' (JStr ''5'')
          (example_state [Inr (stream_response [pod_event_line])])))
     = [HttpGet \<lparr>url = ''https://k8s/api/v1/watch/pods?resourceVersion=5'',
                 headers = [(''Authorization'', ''Bearer tok'')],
                 verify = VerifyCA ''/var/run/secrets/kubernetes.io/serviceaccount/ca.crt'',
                 stream = True\<rparr>,
        HttpGet \<lparr>url = ''https://k8s/api/v1/watch/pods?resourceVersion=6'',
                 headers = [(''Authorization'', ''Bearer tok'')],
                 verify = VerifyCA ''/var/run/secrets/kubernetes.io/serviceaccount/ca.crt'',
                 stream = True\<rparr>]"
  by (simp add: watch_resource_def watch_loop.simps api_get_def api_get_request_def
        format_s_def stream_response_def example_env_def example_agent_def example_state_def
        example_loads_def example_texts pod_event_line_def pod_list_body_def bare_list_body_def pod_a6_def
        getitem_def TYPE_ERROR_def put_def emit_def)

subsection \<open>Restart\<close>

text \<open>
  C1 on the program: a reflector for pods whose watch stream delivers a line cut off in
  the middle. Decoding the line raises \<^verbatim>\<open>ValueError\<close>, which no \<^verbatim>\<open>except\<close> clause of
  the managing loop names: the \<^verbatim>\<open>finally\<close> clause logs the restart and sleeps, and then
  the exception ends the loop. No further list request is made, the answer the server
  holds ready for it is never fetched.
\<close>

theorem manage_resource_dies_on_cut_off_line:
  "fst (manage_resource example_agent example_env ''Pod''
         (example_state [Inr list_response, Inr (stream_response [cut_off_line]),
                         Inr list_response]))
   = Died ValueError
   \<and> network (snd (manage_resource example_agent example_env ''Pod''
         (example_state [Inr list_response, Inr (stream_response [cut_off_line]),
                         Inr list_response])))
   = [Inr list_response]
   \<and> trace (snd (manage_resource example_agent example_env ''Pod''
         (example_state [Inr list_response, Inr (stream_response [cut_off_line]),
                         Inr list_response])))
   = [HttpGet (api_get_request example_agent example_env ''https://k8s/api/v1/pods'' False JNull),
      HttpGet (api_get_request example_agent example_env ''https://k8s/api/v1/watch/pods'' True
                 (JStr ''5'')),
      Log WARNING ''Re-starting watch on resource: %s'' [JStr ''Pod''],
      Sleep 1]"
  by (simp add: manage_resource.simps sync_and_watch_def sync_resources_def watch_resource_def
        watch_loop.simps api_get_def response_json_def getitem_def get_method_def put_def
        except_clause_def finally_clause_def emit_def
        example_env_def example_agent_def example_state_def list_response_def stream_response_def
        example_loads_def example_texts pod_list_def pod_list_body_def bare_list_body_def pod_event_line_def
        namespace_event_line_def cut_off_line_def)

subsection \<open>Start-up\<close>

lemma map_add_upd_left_rev:
  "m(k \<mapsto> v) ++ map_of (rev kvs) = m ++ map_of (rev ((k, v) # kvs))"
  by (rule ext) (simp add: map_add_def split: option.splits)

lemma cache_endpoints_eq:
  "cache_endpoints eps st
   = st\<lparr>cache := cache st ++ map_of (rev (map (\<lambda>ep. (workload_id ep, labels ep)) eps)),
         trace := trace st @ map (\<lambda>ep. CacheSet (workload_id ep)) eps\<rparr>"
proof (induction eps arbitrary: st)
  case Nil
  show ?case by simp
next
  case (Cons ep eps)
  let ?kvs = "map (\<lambda>ep. (workload_id ep, labels ep)) eps"
  have "cache_endpoints (ep # eps) st
        = st\<lparr>cache := (cache st)(workload_id ep \<mapsto> labels ep) ++ map_of (rev ?kvs),
              trace := trace st @ map (\<lambda>ep. CacheSet (workload_id ep)) (ep # eps)\<rparr>"
    by (simp add: Cons.IH emit_def fun_upd_def)
  also have "(cache st)(workload_id ep \<mapsto> labels ep) ++ map_of (rev ?kvs)
             = cache st ++ map_of (rev (map (\<lambda>ep. (workload_id ep, labels ep)) (ep # eps)))"
    using map_add_upd_left_rev [of "cache st" "workload_id ep" "labels ep" ?kvs] by simp
  finally show ?case .
qed

lemma start_threads_eq:
  "start_threads rts st = st\<lparr>trace := trace st @ map StartThread rts\<rparr>"
  by (induction rts arbitrary: st) (simp_all add: emit_def)

text \<open>
  C8. When the two calls of the datastore client succeed, \<^verbatim>\<open>run\<close> enters the dispatcher
  loop in a state whose cache holds, for every endpoint the datastore listed, the
  endpoint's labels under its workload identifier (the last one listed when an identifier
  occurs twice), on top of what the cache held before. In the order of effects the listing
  and every store into the cache come first, then the start of the three worker threads,
  and only then the effects of the dispatcher, the first read of the queue among them.
\<close>

theorem run_seeds_cache_first:
  assumes "set_policy_tier_metadata client (NET_POL_TIER_NAME env) (JObj [(''order'', JNum 50)])
           = None"
    and "get_endpoints client ''k8s'' = Inr eps"
  shows "run client env hs arrivals st
         = read_updates hs
             (st\<lparr>cache := cache st ++ map_of (rev (map (\<lambda>ep. (workload_id ep, labels ep)) eps)),
                 event_queue := event_queue st @ arrivals,
                 trace := trace st
                   @ [SetPolicyTier (NET_POL_TIER_NAME env) (JObj [(''order'', JNum 50)]),
                      GetEndpoints ''k8s'']
                   @ map (\<lambda>ep. CacheSet (workload_id ep)) eps
                   @ map StartThread [RESOURCE_TYPE_NETWORK_POLICY env,
                                      RESOURCE_TYPE_NAMESPACE env,
                                      RESOURCE_TYPE_POD env]\<rparr>)
       \<and> (\<exists>post. trace (snd (run client env hs arrivals st))
                  = trace st
                    @ [SetPolicyTier (NET_POL_TIER_NAME env) (JObj [(''order'', JNum 50)]),
                       GetEndpoints ''k8s'']
                    @ map (\<lambda>ep. CacheSet (workload_id ep)) eps
                    @ map StartThread [RESOURCE_TYPE_NETWORK_POLICY env,
                                       RESOURCE_TYPE_NAMESPACE env,
                                       RESOURCE_TYPE_POD env]
                    @ post
                \<and> list_all dispatcher_effect post)"
proof -
  let ?s = "st\<lparr>cache := cache st ++ map_of (rev (map (\<lambda>ep. (workload_id ep, labels ep)) eps)),
                 event_queue := event_queue st @ arrivals,
                 trace := trace st
                   @ [SetPolicyTier (NET_POL_TIER_NAME env) (JObj [(''order'', JNum 50)]),
                      GetEndpoints ''k8s'']
                   @ map (\<lambda>ep. CacheSet (workload_id ep)) eps
                   @ map StartThread [RESOURCE_TYPE_NETWORK_POLICY env,
                                      RESOURCE_TYPE_NAMESPACE env,
                                      RESOURCE_TYPE_POD env]\<rparr>"
  have r: "run client env hs arrivals st = read_updates hs ?s"
    using assms
    by (cases st)
       (simp add: run_def load_cache_def start_workers_def cache_endpoints_eq start_threads_eq
          emit_def Let_def)
  from trace_read_updates [of hs ?s]
  obtain post where "trace (snd (read_updates hs ?s)) = trace ?s @ post"
      and "list_all dispatcher_effect post"
    by auto
  with r show ?thesis by auto
qed

theorem run_seeds_cache_first_witness:
  "cache (snd (run example_client example_env example_handlers
                 [(JStr ''ADDED'', JStr ''Pod'', pod_a)] (example_state []))) ''ns.a'' = Some ()
   \<and> trace (snd (run example_client example_env example_handlers
                 [(JStr ''ADDED'', JStr ''Pod'', pod_a)] (example_state [])))
     = [SetPolicyTier ''k8s-network-policy'' (JObj [(''order'', JNum 50)]),
        GetEndpoints ''k8s'',
        CacheSet ''ns.a'',
        StartThread ''NetworkPolicy'', StartThread ''Namespace'', StartThread ''Pod'',
        QueueGet (JStr ''ADDED'', JStr ''Pod'', pod_a),
        CallHandler (JStr ''ADDED'') (JStr ''Pod'') (JStr ''ns'', JStr ''a'')]"
  using run_seeds_cache_first
    [of example_client example_env "[\<lparr>workload_id = ''ns.a'', labels = ()\<rparr>]"
        example_handlers "[(JStr ''ADDED'', JStr ''Pod'', pod_a)]" "example_state []"]
  by (simp add: example_client_def example_env_def example_state_def read_updates.simps
        process_update_def getitem_def get_method_def pod_a_def example_get_handler emit_def)

end
